theory Spec2Isabelle
  imports Complex_Main "HOL-Library.Log_Nat"
begin

section \<open>Numbers, arrays and exceptions of the scripts\<close>

text \<open>
  The scripts of \<^verbatim>\<open>virtual-research-data-generator/scripts\<close> compute on numpy
  arrays of floats. A float is modelled by \<open>fl\<close>: an exact real number or one of the
  three special values of IEEE arithmetic. Rounding and the sign of zero are left out of
  this type (the section on binary64 adds rounding, for the claim that is about the
  digits of a result). numpy never raises on a division by zero: it yields \<open>inf\<close> or \<open>nan\<close>, and that
  is what \<open>fl_div\<close> does. An array is a list; an exception of the Python code is a value
  of \<open>py_error\<close>, returned as \<open>Inl\<close>.
\<close>

datatype py_error = ValueError | IndexError | ZeroDivisionError | OverflowError

datatype fl = Fin real | PInf | NInf | NaN

fun fl_neg :: "fl \<Rightarrow> fl" where
  "fl_neg (Fin a) = Fin (- a)"
| "fl_neg PInf = NInf"
| "fl_neg NInf = PInf"
| "fl_neg NaN = NaN"

fun fl_add :: "fl \<Rightarrow> fl \<Rightarrow> fl" where
  "fl_add NaN _ = NaN"
| "fl_add _ NaN = NaN"
| "fl_add (Fin a) (Fin b) = Fin (a + b)"
| "fl_add PInf NInf = NaN"
| "fl_add NInf PInf = NaN"
| "fl_add PInf _ = PInf"
| "fl_add NInf _ = NInf"
| "fl_add _ PInf = PInf"
| "fl_add _ NInf = NInf"

definition fl_sub :: "fl \<Rightarrow> fl \<Rightarrow> fl" where
  "fl_sub a b = fl_add a (fl_neg b)"

text \<open>The sign of an infinite product or quotient: \<open>True\<close> is positive.\<close>

definition fl_inf :: "bool \<Rightarrow> fl" where
  "fl_inf pos = (if pos then PInf else NInf)"

fun fl_mul :: "fl \<Rightarrow> fl \<Rightarrow> fl" where
  "fl_mul NaN _ = NaN"
| "fl_mul _ NaN = NaN"
| "fl_mul (Fin a) (Fin b) = Fin (a * b)"
| "fl_mul PInf PInf = PInf"
| "fl_mul PInf NInf = NInf"
| "fl_mul NInf PInf = NInf"
| "fl_mul NInf NInf = PInf"
| "fl_mul PInf (Fin b) = (if b = 0 then NaN else fl_inf (0 < b))"
| "fl_mul NInf (Fin b) = (if b = 0 then NaN else fl_inf (b < 0))"
| "fl_mul (Fin a) PInf = (if a = 0 then NaN else fl_inf (0 < a))"
| "fl_mul (Fin a) NInf = (if a = 0 then NaN else fl_inf (a < 0))"

fun fl_div :: "fl \<Rightarrow> fl \<Rightarrow> fl" where
  "fl_div NaN _ = NaN"
| "fl_div _ NaN = NaN"
| "fl_div (Fin a) (Fin b) =
     (if b = 0 then (if a = 0 then NaN else fl_inf (0 < a)) else Fin (a / b))"
| "fl_div (Fin a) _ = Fin 0"
| "fl_div PInf (Fin b) = fl_inf (0 \<le> b)"
| "fl_div NInf (Fin b) = fl_inf (b < 0)"
| "fl_div _ _ = NaN"

fun fl_abs :: "fl \<Rightarrow> fl" where
  "fl_abs (Fin a) = Fin \<bar>a\<bar>"
| "fl_abs NaN = NaN"
| "fl_abs _ = PInf"

fun fl_sqrt :: "fl \<Rightarrow> fl" where
  "fl_sqrt (Fin a) = (if a < 0 then NaN else Fin (sqrt a))"
| "fl_sqrt PInf = PInf"
| "fl_sqrt _ = NaN"

fun fl_log :: "fl \<Rightarrow> fl" where
  "fl_log (Fin a) = (if a < 0 then NaN else if a = 0 then NInf else Fin (ln a))"
| "fl_log PInf = PInf"
| "fl_log _ = NaN"

text \<open>Comparisons: every comparison with \<open>nan\<close> is false.\<close>

fun fl_le :: "fl \<Rightarrow> fl \<Rightarrow> bool" where
  "fl_le NaN _ = False"
| "fl_le _ NaN = False"
| "fl_le (Fin a) (Fin b) = (a \<le> b)"
| "fl_le NInf _ = True"
| "fl_le _ PInf = True"
| "fl_le _ _ = False"

fun fl_less :: "fl \<Rightarrow> fl \<Rightarrow> bool" where
  "fl_less NaN _ = False"
| "fl_less _ NaN = False"
| "fl_less (Fin a) (Fin b) = (a < b)"
| "fl_less PInf _ = False"
| "fl_less _ NInf = False"
| "fl_less _ _ = True"

text \<open>A non-negative number: finite, and not below zero.\<close>

definition nonneg_number :: "fl \<Rightarrow> bool" where
  "nonneg_number x = (case x of Fin r \<Rightarrow> 0 \<le> r | _ \<Rightarrow> False)"

text \<open>\<^verbatim>\<open>np.maximum\<close> and \<^verbatim>\<open>np.minimum\<close> on one pair of elements: \<open>nan\<close> propagates.\<close>

fun np_maximum :: "fl \<Rightarrow> fl \<Rightarrow> fl" where
  "np_maximum NaN _ = NaN"
| "np_maximum _ NaN = NaN"
| "np_maximum a b = (if fl_le a b then b else a)"

fun np_minimum :: "fl \<Rightarrow> fl \<Rightarrow> fl" where
  "np_minimum NaN _ = NaN"
| "np_minimum _ NaN = NaN"
| "np_minimum a b = (if fl_le a b then a else b)"

text \<open>Sums, means and variances of an array, as numpy computes them in exact arithmetic.
  \<^verbatim>\<open>np.var(x, ddof=k)\<close> divides the sum of squared deviations by \<open>max (n - k) 0\<close>, and
  the mean of an empty array is \<open>0/0 = nan\<close> (a warning, no exception).\<close>

definition fl_sum :: "fl list \<Rightarrow> fl" where
  "fl_sum xs = foldr fl_add xs (Fin 0)"

definition np_mean :: "fl list \<Rightarrow> fl" where
  "np_mean xs = fl_div (fl_sum xs) (Fin (real (length xs)))"

definition np_var :: "fl list \<Rightarrow> int \<Rightarrow> fl" where
  "np_var xs ddof =
     (let m = np_mean xs;
          sq = map (\<lambda>x. fl_mul (fl_sub x m) (fl_sub x m)) xs
      in fl_div (fl_sum sq) (Fin (real_of_int (max (int (length xs) - ddof) 0))))"

definition np_std :: "fl list \<Rightarrow> fl" where
  "np_std xs = fl_sqrt (np_var xs 0)"

text \<open>\<^verbatim>\<open>np.max\<close> of an array: a \<^verbatim>\<open>ValueError\<close> on the empty array.\<close>

definition np_max :: "fl list \<Rightarrow> py_error + fl" where
  "np_max xs = (case xs of [] \<Rightarrow> Inl ValueError | x # ys \<Rightarrow> Inr (foldl np_maximum x ys))"

text \<open>
  A numeric array has a dtype: \<^verbatim>\<open>float64\<close>, or \<^verbatim>\<open>int64\<close> (what \<^verbatim>\<open>np.array\<close> makes
  of Python integers). numpy's means, variances and mixed arithmetic read the elements of
  either as floats: \<open>as_float\<close>. Storing a float into an \<^verbatim>\<open>int64\<close> array converts it:
  the fraction is cut off (truncation toward zero), and \<open>nan\<close>, \<open>inf\<close> and a value
  outside the range of \<^verbatim>\<open>int64\<close> become the least \<^verbatim>\<open>int64\<close> (the result of the
  conversion on x86-64, where numpy warns and goes on).
\<close>

datatype ndarray = Float64 "fl list" | Int64 "int list"

fun as_float :: "ndarray \<Rightarrow> fl list" where
  "as_float (Float64 xs) = xs"
| "as_float (Int64 ns) = map (\<lambda>n. Fin (real_of_int n)) ns"

fun is_float64 :: "ndarray \<Rightarrow> bool" where
  "is_float64 (Float64 xs) = True"
| "is_float64 (Int64 ns) = False"

definition trunc_toward_zero :: "real \<Rightarrow> int" where
  "trunc_toward_zero x = (if 0 \<le> x then \<lfloor>x\<rfloor> else \<lceil>x\<rceil>)"

fun cast_int64 :: "fl \<Rightarrow> int" where
  "cast_int64 (Fin x) =
     (let t = trunc_toward_zero x
      in if - (2 ^ 63) \<le> t \<and> t < 2 ^ 63 then t else - (2 ^ 63))"
| "cast_int64 _ = - (2 ^ 63)"


text \<open>
  \<^verbatim>\<open>result = data.copy(); result[mask] = f(data[mask])\<close> for an elementwise \<open>f\<close> computed
  in floats: the copy keeps the dtype of \<open>data\<close>, and the assignment converts each new
  value to it.
\<close>

fun assign_where :: "ndarray \<Rightarrow> bool list \<Rightarrow> (fl \<Rightarrow> fl) \<Rightarrow> ndarray" where
  "assign_where (Float64 xs) keep f = Float64 (map2 (\<lambda>x b. if b then f x else x) xs keep)"
| "assign_where (Int64 ns) keep f =
     Int64 (map2 (\<lambda>n b. if b then cast_int64 (f (Fin (real_of_int n))) else n) ns keep)"

text \<open>\<^verbatim>\<open>values[mask]\<close> with a boolean mask: the elements where the mask is true. A mask
  indexes only an array of its own length (\<^verbatim>\<open>IndexError\<close> otherwise).\<close>

definition mask_index :: "'a list \<Rightarrow> bool list \<Rightarrow> py_error + 'a list" where
  "mask_index values keep =
     (if length values = length keep
      then Inr (map fst (filter snd (zip values keep)))
      else Inl IndexError)"

section \<open>The arithmetic of the arrays: exact, and binary64\<close>

text \<open>
  Where a claim is about the digits of a result, the rounding of numpy's \<^verbatim>\<open>float64\<close>
  counts. \<open>binary64 x\<close> is the IEEE 754 double nearest to the real number \<open>x\<close>, ties
  to the even significand: with \<open>e\<close> the exponent of \<open>x\<close> (not below that of the least
  normal double), \<open>x\<close> is rounded to a multiple of \<open>2^(e - 52)\<close>, and a result of
  magnitude \<open>2^1024\<close> or more is infinite. \<open>rint\<close> rounds to the nearest integer, halves
  to the even one: it is \<^verbatim>\<open>np.round\<close> with no decimals.
\<close>

definition rint :: "real \<Rightarrow> int" where
  "rint x =
     (let f = \<lfloor>x\<rfloor>; d = x - of_int f
      in if d < 1 / 2 then f else if 1 / 2 < d then f + 1
         else if even f then f else f + 1)"

definition binary64_exponent :: "real \<Rightarrow> int" where
  "binary64_exponent x = max \<lfloor>log 2 \<bar>x\<bar>\<rfloor> (- 1022)"

definition binary64 :: "real \<Rightarrow> fl" where
  "binary64 x =
     (if x = 0 then Fin 0
      else (let u = 2 powi (binary64_exponent x - 52);
                r = of_int (rint (x / u)) * u
            in if 2 ^ 1024 \<le> \<bar>r\<bar> then fl_inf (0 < r) else Fin r))"

text \<open>An arithmetic is the division and the multiplication of two floats: exact, or with
  each result rounded to a double. \<^verbatim>\<open>np.round\<close>, \<^verbatim>\<open>np.floor\<close> and \<^verbatim>\<open>np.ceil\<close> are
  exact in both (an integer of that size is a double); they keep \<open>nan\<close> and \<open>inf\<close>.\<close>

fun fl_round64 :: "fl \<Rightarrow> fl" where
  "fl_round64 (Fin x) = binary64 x"
| "fl_round64 x = x"

fun fl_integer :: "(real \<Rightarrow> int) \<Rightarrow> fl \<Rightarrow> fl" where
  "fl_integer f (Fin x) = Fin (of_int (f x))"
| "fl_integer f x = x"

record arith =
  a_div :: "fl \<Rightarrow> fl \<Rightarrow> fl"
  a_mul :: "fl \<Rightarrow> fl \<Rightarrow> fl"

definition exact_arith :: arith where
  "exact_arith = \<lparr>a_div = fl_div, a_mul = fl_mul\<rparr>"

definition binary64_arith :: arith where
  "binary64_arith = \<lparr>a_div = (\<lambda>x y. fl_round64 (fl_div x y)),
                      a_mul = (\<lambda>x y. fl_round64 (fl_mul x y))\<rparr>"

section \<open>The library: numpy's process-wide random generator\<close>

text \<open>
  \<^verbatim>\<open>np.random.seed\<close>, \<^verbatim>\<open>np.random.normal\<close> and the other functions of \<^verbatim>\<open>np.random\<close>
  read and update one generator state that belongs to the process, not to any object of
  the scripts. The state is a value of type \<open>'g\<close>, threaded through every call; the
  library functions themselves are parameters, collected in the record \<open>numpy\<close>.
  \<^verbatim>\<open>np.random.seed(s)\<close> replaces the state by one that depends on \<open>s\<close> alone (or raises
  for a seed outside its range); a drawing function returns its array and the next state
  (or raises, for instance for a negative size). \<^verbatim>\<open>scipy.stats.skewnorm.rvs\<close> draws from
  the same state.
\<close>

record 'g numpy =
  np_seed :: "int \<Rightarrow> py_error + 'g"
  np_normal :: "fl \<Rightarrow> fl \<Rightarrow> int \<Rightarrow> 'g \<Rightarrow> py_error + fl list \<times> 'g"
  np_lognormal :: "fl \<Rightarrow> fl \<Rightarrow> int \<Rightarrow> 'g \<Rightarrow> py_error + fl list \<times> 'g"
  np_uniform :: "fl \<Rightarrow> fl \<Rightarrow> int \<Rightarrow> 'g \<Rightarrow> py_error + fl list \<times> 'g"
  skewnorm_rvs :: "fl \<Rightarrow> int \<Rightarrow> 'g \<Rightarrow> py_error + fl list \<times> 'g"
  np_random :: "nat \<Rightarrow> 'g \<Rightarrow> fl list \<times> 'g"
  np_binomial :: "nat \<Rightarrow> fl \<Rightarrow> nat \<Rightarrow> 'g \<Rightarrow> py_error + int list \<times> 'g"
  np_percentile :: "fl list \<Rightarrow> fl \<Rightarrow> py_error + fl"

text \<open>
  What the scripts rely on from the library: a drawing function returns an array of the
  size asked for; \<^verbatim>\<open>np.random.uniform(low, high, n)\<close> draws between its bounds when
  \<open>low \<le> high\<close>; a percentile of a non-empty array of non-negative numbers is not
  negative (it lies between the least and the greatest element).
\<close>

definition numpy_contract :: "'g numpy \<Rightarrow> bool" where
  "numpy_contract np \<longleftrightarrow>
     (\<forall>low high n g xs g'. np_uniform np low high n g = Inr (xs, g') \<longrightarrow>
        length xs = nat n \<and> (fl_le low high \<longrightarrow> (\<forall>x\<in>set xs. fl_le low x \<and> fl_le x high)))
   \<and> (\<forall>k p n g xs g'. np_binomial np k p n g = Inr (xs, g') \<longrightarrow> length xs = n)
   \<and> (\<forall>xs q v. np_percentile np xs q = Inr v \<and> xs \<noteq> []
          \<and> list_all nonneg_number xs \<longrightarrow> fl_le (Fin 0) v)"

section \<open>generate_continuous.py: ContinuousVariableGenerator\<close>

record ContinuousVariableGenerator =
  cvg_random_seed :: "int option"

text \<open>
  \<^verbatim>\<open>
  def __init__(self, random_seed=None):
      self.random_seed = random_seed
      if random_seed is not None:
          np.random.seed(random_seed)
  \<close>
\<close>

definition cvg_init ::
  "'g numpy \<Rightarrow> int option \<Rightarrow> 'g \<Rightarrow> py_error + ContinuousVariableGenerator \<times> 'g" where
  "cvg_init np random_seed g =
     (case random_seed of
        None \<Rightarrow> Inr (\<lparr>cvg_random_seed = random_seed\<rparr>, g)
      | Some s \<Rightarrow>
          (case np_seed np s of
             Inl e \<Rightarrow> Inl e
           | Inr g' \<Rightarrow> Inr (\<lparr>cvg_random_seed = random_seed\<rparr>, g')))"

definition truncate_data :: "fl list \<Rightarrow> fl option \<Rightarrow> fl option \<Rightarrow> fl list" where
  "truncate_data data min_val max_val =
     (let data = (case min_val of None \<Rightarrow> data
                  | Some lo \<Rightarrow> map (\<lambda>x. np_maximum x lo) data);
          data = (case max_val of None \<Rightarrow> data
                  | Some hi \<Rightarrow> map (\<lambda>x. np_minimum x hi) data)
      in data)"

text \<open>The tail shared by the samplers: truncate when a bound is given.\<close>

definition truncate_if_asked :: "fl list \<Rightarrow> fl option \<Rightarrow> fl option \<Rightarrow> fl list" where
  "truncate_if_asked data min_val max_val =
     (if min_val \<noteq> None \<or> max_val \<noteq> None then truncate_data data min_val max_val
      else data)"

definition generate_normal ::
  "'g numpy \<Rightarrow> ContinuousVariableGenerator \<Rightarrow> int \<Rightarrow> fl \<Rightarrow> fl \<Rightarrow> fl option \<Rightarrow> fl option
     \<Rightarrow> 'g \<Rightarrow> py_error + fl list \<times> 'g" where
  "generate_normal np self n mean std min_val max_val g =
     (case np_normal np mean std n g of
        Inl e \<Rightarrow> Inl e
      | Inr (data, g') \<Rightarrow> Inr (truncate_if_asked data min_val max_val, g'))"

text \<open>
  \<^verbatim>\<open>
  def _lognormal_params(self, mean, std):
      var = std ** 2
      mu = np.log(mean ** 2 / np.sqrt(var + mean ** 2))
      sigma = np.sqrt(np.log(1 + var / mean ** 2))
      return mu, sigma
  \<close>
  The first quotient has a numpy divisor and never raises; \<^verbatim>\<open>var / mean ** 2\<close> divides
  two Python numbers and raises \<^verbatim>\<open>ZeroDivisionError\<close> when \<open>mean\<close> is zero.
\<close>

definition lognormal_params :: "fl \<Rightarrow> fl \<Rightarrow> py_error + fl \<times> fl" where
  "lognormal_params mean std =
     (let var = fl_mul std std;
          mean2 = fl_mul mean mean;
          mu = fl_log (fl_div mean2 (fl_sqrt (fl_add var mean2)))
      in if mean2 = Fin 0 then Inl ZeroDivisionError
         else Inr (mu, fl_sqrt (fl_log (fl_add (Fin 1) (fl_div var mean2)))))"

definition generate_lognormal ::
  "'g numpy \<Rightarrow> ContinuousVariableGenerator \<Rightarrow> int \<Rightarrow> fl \<Rightarrow> fl \<Rightarrow> fl option \<Rightarrow> fl option
     \<Rightarrow> 'g \<Rightarrow> py_error + fl list \<times> 'g" where
  "generate_lognormal np self n mean std min_val max_val g =
     (case lognormal_params mean std of
        Inl e \<Rightarrow> Inl e
      | Inr (mu, sigma) \<Rightarrow>
          (case np_lognormal np mu sigma n g of
             Inl e \<Rightarrow> Inl e
           | Inr (data, g') \<Rightarrow> Inr (truncate_if_asked data min_val max_val, g')))"

text \<open>
  \<^verbatim>\<open>
  a = skewness * 5
  data = stats.skewnorm.rvs(a, size=n)
  data = (data - data.mean()) / data.std() * std + mean
  \<close>
\<close>

definition generate_skewed ::
  "'g numpy \<Rightarrow> ContinuousVariableGenerator \<Rightarrow> int \<Rightarrow> fl \<Rightarrow> fl \<Rightarrow> fl \<Rightarrow> fl option \<Rightarrow> fl option
     \<Rightarrow> 'g \<Rightarrow> py_error + fl list \<times> 'g" where
  "generate_skewed np self n mean std skewness min_val max_val g =
     (let a = fl_mul skewness (Fin 5) in
      case skewnorm_rvs np a n g of
        Inl e \<Rightarrow> Inl e
      | Inr (data, g') \<Rightarrow>
          (let m = np_mean data; s = np_std data;
               data = map (\<lambda>x. fl_add (fl_mul (fl_div (fl_sub x m) s) std) mean) data
           in Inr (truncate_if_asked data min_val max_val, g')))"

definition generate_uniform ::
  "'g numpy \<Rightarrow> ContinuousVariableGenerator \<Rightarrow> int \<Rightarrow> fl \<Rightarrow> fl
     \<Rightarrow> 'g \<Rightarrow> py_error + fl list \<times> 'g" where
  "generate_uniform np self n low high g = np_uniform np low high n g"

text \<open>
  The convenience function. \<open>kwargs\<close> is the dictionary of the extra keyword arguments;
  \<^verbatim>\<open>kwargs.get('low', mean - std * np.sqrt(3))\<close> reads it with a default.
\<close>

definition kwargs_get :: "(string \<times> fl) list \<Rightarrow> string \<Rightarrow> fl \<Rightarrow> fl" where
  "kwargs_get kwargs key dflt = (case map_of kwargs key of None \<Rightarrow> dflt | Some v \<Rightarrow> v)"

definition generate_continuous_variable ::
  "'g numpy \<Rightarrow> int \<Rightarrow> string \<Rightarrow> fl \<Rightarrow> fl \<Rightarrow> fl option \<Rightarrow> fl option \<Rightarrow> fl \<Rightarrow> int option
     \<Rightarrow> (string \<times> fl) list \<Rightarrow> 'g \<Rightarrow> py_error + fl list \<times> 'g" where
  "generate_continuous_variable np n distribution mean std min_val max_val skewness
       random_seed kwargs g =
     (case cvg_init np random_seed g of
        Inl e \<Rightarrow> Inl e
      | Inr (generator, g1) \<Rightarrow>
          if distribution = ''normal'' then
            generate_normal np generator n mean std min_val max_val g1
          else if distribution = ''lognormal'' then
            generate_lognormal np generator n mean std min_val max_val g1
          else if distribution = ''skewed'' then
            generate_skewed np generator n mean std skewness min_val max_val g1
          else if distribution = ''uniform'' then
            (let low = kwargs_get kwargs ''low''
                         (fl_sub mean (fl_mul std (Fin (sqrt 3))));
                 high = kwargs_get kwargs ''high''
                         (fl_add mean (fl_mul std (Fin (sqrt 3))))
             in generate_uniform np generator n low high g1)
          else Inl ValueError)"

text \<open>What a caller sees of a call: the exception, or the returned value without the
  generator state.\<close>

definition returned :: "py_error + 'a \<times> 'g \<Rightarrow> py_error + 'a" where
  "returned r = (case r of Inl e \<Rightarrow> Inl e | Inr (v, g) \<Rightarrow> Inr v)"

text \<open>Constructing a generator and then calling one of its methods, as one run.\<close>

definition cvg_run ::
  "'g numpy \<Rightarrow> int option \<Rightarrow> (ContinuousVariableGenerator \<Rightarrow> 'g \<Rightarrow> py_error + 'a \<times> 'g)
     \<Rightarrow> 'g \<Rightarrow> py_error + 'a \<times> 'g" where
  "cvg_run np random_seed method g =
     (case cvg_init np random_seed g of
        Inl e \<Rightarrow> Inl e
      | Inr (self, g1) \<Rightarrow> method self g1)"

text \<open>
  \<^verbatim>\<open>
  def _calculate_cohens_d(self, data, group):
      group0 = data[group == 0]
      group1 = data[group == 1]
      n0, n1 = len(group0), len(group1)
      var0, var1 = np.var(group0, ddof=1), np.var(group1, ddof=1)
      pooled_std = np.sqrt(((n0 - 1) * var0 + (n1 - 1) * var1) / (n0 + n1 - 2))
      return (group1.mean() - group0.mean()) / pooled_std
  \<close>
\<close>

definition group_values :: "fl list \<Rightarrow> int list \<Rightarrow> int \<Rightarrow> py_error + fl list" where
  "group_values data grp k = mask_index data (map (\<lambda>g. g = k) grp)"

definition pooled_std :: "fl list \<Rightarrow> fl list \<Rightarrow> fl" where
  "pooled_std group0 group1 =
     (let n0 = int (length group0); n1 = int (length group1);
          var0 = np_var group0 1; var1 = np_var group1 1
      in fl_sqrt (fl_div
           (fl_add (fl_mul (Fin (real_of_int (n0 - 1))) var0)
                   (fl_mul (Fin (real_of_int (n1 - 1))) var1))
           (Fin (real_of_int (n0 + n1 - 2)))))"

definition calculate_cohens_d :: "ndarray \<Rightarrow> int list \<Rightarrow> py_error + fl" where
  "calculate_cohens_d data grp =
     (case group_values (as_float data) grp 0 of
        Inl e \<Rightarrow> Inl e
      | Inr group0 \<Rightarrow>
          (case group_values (as_float data) grp 1 of
             Inl e \<Rightarrow> Inl e
           | Inr group1 \<Rightarrow>
               Inr (fl_div (fl_sub (np_mean group1) (np_mean group0))
                      (pooled_std group0 group1))))"

text \<open>
  \<^verbatim>\<open>
  def adjust_effect_size(self, data, group, target_effect_size, current_effect_size=None):
      if current_effect_size is None:
          current_effect_size = self._calculate_cohens_d(data, group)
      if current_effect_size == 0:
          return data
      adjustment_factor = target_effect_size / current_effect_size
      adjusted_data = data.copy()
      group1_mask = group == 1
      pooled_std = np.sqrt((np.var(data[~group1_mask]) + np.var(data[group1_mask])) / 2)
      mean_diff = data[group1_mask].mean() - data[~group1_mask].mean()
      new_mean_diff = mean_diff * adjustment_factor
      adjusted_data[group1_mask] = (data[group1_mask] - mean_diff + new_mean_diff)
      return adjusted_data
  \<close>
  The first two lines are \<open>effect_size_in_use\<close>. The local \<^verbatim>\<open>pooled_std\<close> is computed
  and never read. The means are floats whatever the dtype of \<open>data\<close>, so the new values
  of group 1 are floats; \<^verbatim>\<open>adjusted_data\<close> has the dtype of \<open>data\<close>.
\<close>

definition effect_size_in_use :: "ndarray \<Rightarrow> int list \<Rightarrow> fl option \<Rightarrow> py_error + fl" where
  "effect_size_in_use data grp current_effect_size =
     (case current_effect_size of
        None \<Rightarrow> calculate_cohens_d data grp
      | Some c \<Rightarrow> Inr c)"

definition adjust_effect_size ::
  "ContinuousVariableGenerator \<Rightarrow> ndarray \<Rightarrow> int list \<Rightarrow> fl \<Rightarrow> fl option
     \<Rightarrow> py_error + ndarray" where
  "adjust_effect_size self data grp target_effect_size current_effect_size =
     (case effect_size_in_use data grp current_effect_size of
        Inl e \<Rightarrow> Inl e
      | Inr current \<Rightarrow>
          if current = Fin 0 then Inr data
          else
            (let adjustment_factor = fl_div target_effect_size current;
                 group1_mask = map (\<lambda>g. g = 1) grp
             in case mask_index (as_float data) (map Not group1_mask) of
                  Inl e \<Rightarrow> Inl e
                | Inr others \<Rightarrow>
                    (case mask_index (as_float data) group1_mask of
                       Inl e \<Rightarrow> Inl e
                     | Inr group1 \<Rightarrow>
                         (let pooled_std = fl_sqrt (fl_div
                                (fl_add (np_var others 0) (np_var group1 0)) (Fin 2));
                              mean_diff = fl_sub (np_mean group1) (np_mean others);
                              new_mean_diff = fl_mul mean_diff adjustment_factor
                          in Inr (assign_where data group1_mask
                                    (\<lambda>x. fl_add (fl_sub x mean_diff) new_mean_diff))))))"

text \<open>
  The divisors of the divisions a call evaluates, in the order of evaluation: the ones of
  \<^verbatim>\<open>_calculate_cohens_d\<close> (the two variances with their means, the pooled variance, the
  two means, the quotient by the pooled standard deviation), and the ones of
  \<^verbatim>\<open>adjust_effect_size\<close> up to its return on a zero effect size. A call that raises
  evaluates none of the listed divisions of the function that raised.
\<close>

definition cohens_d_divisors :: "ndarray \<Rightarrow> int list \<Rightarrow> fl list" where
  "cohens_d_divisors data grp =
     (case group_values (as_float data) grp 0 of
        Inl e \<Rightarrow> []
      | Inr group0 \<Rightarrow>
          (case group_values (as_float data) grp 1 of
             Inl e \<Rightarrow> []
           | Inr group1 \<Rightarrow>
               (let n0 = int (length group0); n1 = int (length group1)
                in [Fin (real_of_int n0), Fin (real_of_int (max (n0 - 1) 0)),
                    Fin (real_of_int n1), Fin (real_of_int (max (n1 - 1) 0)),
                    Fin (real_of_int (n0 + n1 - 2)),
                    Fin (real_of_int n1), Fin (real_of_int n0),
                    pooled_std group0 group1])))"

definition zero_effect_divisors :: "ndarray \<Rightarrow> int list \<Rightarrow> fl option \<Rightarrow> fl list" where
  "zero_effect_divisors data grp current_effect_size =
     (case current_effect_size of
        None \<Rightarrow> cohens_d_divisors data grp
      | Some c \<Rightarrow> [])"


text \<open>
  Real-valued counterparts of the array operations, for arrays without \<open>nan\<close> and
  \<open>inf\<close>: the elements a mask selects, the mean, the sum of squared deviations from the
  mean, and the array with a constant added to the elements of group 1.
\<close>

definition pick :: "'a list \<Rightarrow> bool list \<Rightarrow> 'a list" where
  "pick xs bs = map fst (filter snd (zip xs bs))"

definition rmean :: "real list \<Rightarrow> real" where
  "rmean ys = sum_list ys / real (length ys)"

definition rssq :: "real list \<Rightarrow> real" where
  "rssq ys = (\<Sum>y\<leftarrow>ys. (y - rmean ys) * (y - rmean ys))"

definition shift1 :: "real \<Rightarrow> real list \<Rightarrow> int list \<Rightarrow> real list" where
  "shift1 c xs grp = map2 (\<lambda>x g. if g = 1 then x + c else x) xs grp"

section \<open>generate_survival.py: SurvivalDataGenerator\<close>

record SurvivalDataGenerator =
  sdg_random_seed :: "int option"

text \<open>The constructor is the one of \<^verbatim>\<open>ContinuousVariableGenerator\<close>, line for line.\<close>

definition sdg_init ::
  "'g numpy \<Rightarrow> int option \<Rightarrow> 'g \<Rightarrow> py_error + SurvivalDataGenerator \<times> 'g" where
  "sdg_init np random_seed g =
     (case random_seed of
        None \<Rightarrow> Inr (\<lparr>sdg_random_seed = random_seed\<rparr>, g)
      | Some s \<Rightarrow>
          (case np_seed np s of
             Inl e \<Rightarrow> Inl e
           | Inr g' \<Rightarrow> Inr (\<lparr>sdg_random_seed = random_seed\<rparr>, g')))"

text \<open>
  \<^verbatim>\<open>
  def generate_censoring(self, survival_time, censoring_rate=0.2,
                         censoring_type='random', max_followup=None):
      n = len(survival_time)
      if censoring_type == 'random':
          if max_followup is None:
              max_followup = np.max(survival_time) * 1.5
          censoring_time = np.random.uniform(0, max_followup * 2, n)
      elif censoring_type == 'administrative':
          if max_followup is None:
              max_followup = np.percentile(survival_time, 100 * (1 - censoring_rate))
          censoring_time = np.full(n, max_followup)
      elif censoring_type == 'mixed':
          if max_followup is None:
              max_followup = np.max(survival_time) * 1.2
          random_censor = np.random.uniform(0, max_followup * 2, n)
          admin_censor = np.full(n, max_followup)
          mix_probs = np.random.binomial(1, 0.5, n)
          censoring_time = np.where(mix_probs, random_censor, admin_censor)
      else:
          raise ValueError(...)
      observed_time = np.minimum(survival_time, censoring_time)
      event = (survival_time <= censoring_time).astype(int)
      return observed_time, event
  \<close>
  \<open>censoring_times\<close> is the function up to the array \<^verbatim>\<open>censoring_time\<close>.
\<close>

definition followup_or ::
  "fl option \<Rightarrow> (py_error + fl) \<Rightarrow> py_error + fl" where
  "followup_or max_followup dflt = (case max_followup of None \<Rightarrow> dflt | Some m \<Rightarrow> Inr m)"

definition scaled_max :: "fl list \<Rightarrow> real \<Rightarrow> py_error + fl" where
  "scaled_max survival_time k =
     (case np_max survival_time of Inl e \<Rightarrow> Inl e | Inr m \<Rightarrow> Inr (fl_mul m (Fin k)))"

definition np_where :: "int list \<Rightarrow> fl list \<Rightarrow> fl list \<Rightarrow> fl list" where
  "np_where c xs ys = map (\<lambda>(b, x, y). if b \<noteq> 0 then x else y) (zip c (zip xs ys))"

definition censoring_times ::
  "'g numpy \<Rightarrow> fl list \<Rightarrow> fl \<Rightarrow> string \<Rightarrow> fl option \<Rightarrow> 'g \<Rightarrow> py_error + fl list \<times> 'g" where
  "censoring_times np survival_time censoring_rate censoring_type max_followup g =
     (let n = length survival_time in
      if censoring_type = ''random'' then
        (case followup_or max_followup (scaled_max survival_time 1.5) of
           Inl e \<Rightarrow> Inl e
         | Inr mf \<Rightarrow> np_uniform np (Fin 0) (fl_mul mf (Fin 2)) (int n) g)
      else if censoring_type = ''administrative'' then
        (case followup_or max_followup
                (np_percentile np survival_time
                   (fl_mul (Fin 100) (fl_sub (Fin 1) censoring_rate))) of
           Inl e \<Rightarrow> Inl e
         | Inr mf \<Rightarrow> Inr (replicate n mf, g))
      else if censoring_type = ''mixed'' then
        (case followup_or max_followup (scaled_max survival_time 1.2) of
           Inl e \<Rightarrow> Inl e
         | Inr mf \<Rightarrow>
             (case np_uniform np (Fin 0) (fl_mul mf (Fin 2)) (int n) g of
                Inl e \<Rightarrow> Inl e
              | Inr (random_censor, g1) \<Rightarrow>
                  (let admin_censor = replicate n mf in
                   case np_binomial np 1 (Fin 0.5) n g1 of
                     Inl e \<Rightarrow> Inl e
                   | Inr (mix_probs, g2) \<Rightarrow>
                       Inr (np_where mix_probs random_censor admin_censor, g2))))
      else Inl ValueError)"

definition generate_censoring ::
  "'g numpy \<Rightarrow> SurvivalDataGenerator \<Rightarrow> fl list \<Rightarrow> fl \<Rightarrow> string \<Rightarrow> fl option \<Rightarrow> 'g
     \<Rightarrow> py_error + (fl list \<times> int list) \<times> 'g" where
  "generate_censoring np self survival_time censoring_rate censoring_type max_followup g =
     (case censoring_times np survival_time censoring_rate censoring_type max_followup g of
        Inl e \<Rightarrow> Inl e
      | Inr (censoring_time, g') \<Rightarrow>
          (let observed_time = map2 np_minimum survival_time censoring_time;
               event = map2 (\<lambda>s c. if fl_le s c then 1 else 0) survival_time censoring_time
           in Inr ((observed_time, event), g')))"

section \<open>Two generator objects in one process\<close>

text \<open>
  \<^verbatim>\<open>
  a = ContinuousVariableGenerator(seed1)
  b = SurvivalDataGenerator(seed2)
  return method(a)
  \<close>
  and the same program without its second line.
\<close>

definition two_instances ::
  "'g numpy \<Rightarrow> int option \<Rightarrow> int option
     \<Rightarrow> (ContinuousVariableGenerator \<Rightarrow> 'g \<Rightarrow> py_error + 'a \<times> 'g)
     \<Rightarrow> 'g \<Rightarrow> py_error + 'a \<times> 'g" where
  "two_instances np seed1 seed2 method g =
     (case cvg_init np seed1 g of
        Inl e \<Rightarrow> Inl e
      | Inr (a, g1) \<Rightarrow>
          (case sdg_init np seed2 g1 of
             Inl e \<Rightarrow> Inl e
           | Inr (b, g2) \<Rightarrow> method a g2))"

text \<open>
  A small linear congruential generator in the place of numpy's Mersenne Twister, to run
  the scripts on concrete inputs: the state is a number below 16, a seed is accepted in
  numpy's range \<open>0 \<le> s < 2^32\<close>, and a draw is the next state divided by 16, scaled
  into the interval asked for. The other drawing functions are affine images of the same
  draws: they have the types of numpy's functions, not their distributions.
\<close>

definition lcg_next :: "nat \<Rightarrow> nat" where
  "lcg_next g = (5 * g + 3) mod 16"

fun lcg_draws :: "nat \<Rightarrow> nat \<Rightarrow> real list \<times> nat" where
  "lcg_draws 0 g = ([], g)"
| "lcg_draws (Suc n) g =
     (let g1 = lcg_next g; (us, g2) = lcg_draws n g1 in (real g1 / 16 # us, g2))"

definition lcg_scaled ::
  "(real \<Rightarrow> fl) \<Rightarrow> int \<Rightarrow> nat \<Rightarrow> py_error + fl list \<times> nat" where
  "lcg_scaled f n g =
     (if n < 0 then Inl ValueError
      else (let (us, g') = lcg_draws (nat n) g in Inr (map f us, g')))"

text \<open>A uniform draw between finite bounds; infinite bounds raise, as in numpy.\<close>

definition lcg_uniform :: "fl \<Rightarrow> fl \<Rightarrow> int \<Rightarrow> nat \<Rightarrow> py_error + fl list \<times> nat" where
  "lcg_uniform low high n g =
     (case (low, high) of
        (Fin a, Fin b) \<Rightarrow> lcg_scaled (\<lambda>u. Fin (a + (b - a) * u)) n g
      | _ \<Rightarrow> Inl OverflowError)"

text \<open>
  The percentile by linear interpolation between the two nearest ranks of the sorted
  array (numpy's default method), in exact arithmetic, for arrays of finite numbers; an
  empty array or one with \<open>nan\<close> or \<open>inf\<close> gives \<open>nan\<close> here.
\<close>

fun fl_real :: "fl \<Rightarrow> real option" where
  "fl_real (Fin a) = Some a"
| "fl_real _ = None"

definition linear_percentile :: "fl list \<Rightarrow> fl \<Rightarrow> py_error + fl" where
  "linear_percentile xs q =
     (case q of
        Fin p \<Rightarrow>
          if 0 \<le> p \<and> p \<le> 100 then
            (if xs = [] \<or> None \<in> set (map fl_real xs) then Inr NaN
             else (let s = sort (map (the \<circ> fl_real) xs);
                       h = p / 100 * (real (length s) - 1);
                       i = nat \<lfloor>h\<rfloor>;
                       j = min (i + 1) (length s - 1)
                   in Inr (Fin (s ! i + (h - real i) * (s ! j - s ! i)))))
          else Inl ValueError
      | _ \<Rightarrow> Inl ValueError)"

definition lcg_numpy :: "nat numpy" where
  "lcg_numpy = \<lparr>
     np_seed = (\<lambda>s. if 0 \<le> s \<and> s < 2 ^ 32 then Inr (nat s mod 16) else Inl ValueError),
     np_normal = (\<lambda>mean std. lcg_scaled (\<lambda>u. fl_add mean (fl_mul std (Fin (u - 1 / 2))))),
     np_lognormal = (\<lambda>mu sigma. lcg_scaled (\<lambda>u. fl_add mu (fl_mul sigma (Fin u)))),
     np_uniform = lcg_uniform,
     skewnorm_rvs = (\<lambda>a. lcg_scaled (\<lambda>u. Fin u)),
     np_random = (\<lambda>n g. let (us, g') = lcg_draws n g in (map Fin us, g')),
     np_binomial = (\<lambda>k p n g. let (us, g') = lcg_draws n g
                     in Inr (map (\<lambda>u. if fl_less (Fin u) p then int k else 0) us, g')),
     np_percentile = linear_percentile
   \<rparr>"

section \<open>add_realism.py: RealismEnhancer\<close>

text \<open>
  \<^verbatim>\<open>
  def enforce_range(self, data, min_val=None, max_val=None):
      result = data.copy()
      if min_val is not None:
          result = np.maximum(result, min_val)
      if max_val is not None:
          result = np.minimum(result, max_val)
      return result
  \<close>
\<close>

definition enforce_range :: "fl list \<Rightarrow> fl option \<Rightarrow> fl option \<Rightarrow> fl list" where
  "enforce_range data min_val max_val =
     (let result = data;
          result = (case min_val of None \<Rightarrow> result
                    | Some lo \<Rightarrow> map (\<lambda>x. np_maximum x lo) result);
          result = (case max_val of None \<Rightarrow> result
                    | Some hi \<Rightarrow> map (\<lambda>x. np_minimum x hi) result)
      in result)"

record RealismEnhancer =
  re_random_seed :: "int option"

definition re_init ::
  "'g numpy \<Rightarrow> int option \<Rightarrow> 'g \<Rightarrow> py_error + RealismEnhancer \<times> 'g" where
  "re_init np random_seed g =
     (case random_seed of
        None \<Rightarrow> Inr (\<lparr>re_random_seed = random_seed\<rparr>, g)
      | Some s \<Rightarrow>
          (case np_seed np s of
             Inl e \<Rightarrow> Inl e
           | Inr g' \<Rightarrow> Inr (\<lparr>re_random_seed = random_seed\<rparr>, g')))"

text \<open>
  \<^verbatim>\<open>
  def add_dropout(self, data, dropout_rate=0.1, dropout_mechanism='random'):
      n = len(list(data.values())[0])
      if dropout_mechanism == 'random':
          dropout_mask = np.random.random(n) < dropout_rate
      elif dropout_mechanism == 'related':
          dropout_mask = np.random.random(n) < dropout_rate
      else:
          raise ValueError(...)
      retained_mask = ~dropout_mask
      filtered_data = {}
      for key, values in data.items():
          filtered_data[key] = values[retained_mask]
      return filtered_data, dropout_mask
  \<close>
  The dictionary is the list of its items in insertion order. The first value of an empty
  dictionary does not exist (\<^verbatim>\<open>IndexError\<close>), and a boolean mask indexes only an array
  of its own length (\<^verbatim>\<open>IndexError\<close> otherwise).
\<close>

fun filter_items ::
  "(string \<times> 'a list) list \<Rightarrow> bool list \<Rightarrow> py_error + (string \<times> 'a list) list" where
  "filter_items [] keep = Inr []"
| "filter_items ((key, values) # items) keep =
     (case mask_index values keep of
        Inl e \<Rightarrow> Inl e
      | Inr kept \<Rightarrow>
          (case filter_items items keep of
             Inl e \<Rightarrow> Inl e
           | Inr rest \<Rightarrow> Inr ((key, kept) # rest)))"

definition random_mask :: "'g numpy \<Rightarrow> nat \<Rightarrow> fl \<Rightarrow> 'g \<Rightarrow> bool list \<times> 'g" where
  "random_mask np n dropout_rate g =
     (let (u, g') = np_random np n g in (map (\<lambda>x. fl_less x dropout_rate) u, g'))"

definition add_dropout ::
  "'g numpy \<Rightarrow> RealismEnhancer \<Rightarrow> (string \<times> 'a list) list \<Rightarrow> fl \<Rightarrow> string \<Rightarrow> 'g
     \<Rightarrow> py_error + ((string \<times> 'a list) list \<times> bool list) \<times> 'g" where
  "add_dropout np self data dropout_rate dropout_mechanism g =
     (case data of
        [] \<Rightarrow> Inl IndexError
      | (key0, values0) # _ \<Rightarrow>
          (let n = length values0 in
           case (if dropout_mechanism = ''random'' then
                   Inr (random_mask np n dropout_rate g)
                 else if dropout_mechanism = ''related'' then
                   Inr (random_mask np n dropout_rate g)
                 else Inl ValueError) of
             Inl e \<Rightarrow> Inl e
           | Inr (dropout_mask, g') \<Rightarrow>
               (let retained_mask = map Not dropout_mask in
                case filter_items data retained_mask of
                  Inl e \<Rightarrow> Inl e
                | Inr filtered_data \<Rightarrow> Inr ((filtered_data, dropout_mask), g'))))"

text \<open>
  \<^verbatim>\<open>
  def round_to_precision(self, data, precision=1.0, method='round'):
      if method == 'round':
          result = np.round(data / precision) * precision
      elif method == 'floor':
          result = np.floor(data / precision) * precision
      elif method == 'ceil':
          result = np.ceil(data / precision) * precision
      else:
          raise ValueError(...)
      return result
  \<close>
  The arithmetic is a parameter.
\<close>

definition round_to_precision ::
  "arith \<Rightarrow> RealismEnhancer \<Rightarrow> fl list \<Rightarrow> fl \<Rightarrow> string \<Rightarrow> py_error + fl list" where
  "round_to_precision A self data precision method =
     (if method = ''round'' then
        Inr (map (\<lambda>x. a_mul A (fl_integer rint (a_div A x precision)) precision) data)
      else if method = ''floor'' then
        Inr (map (\<lambda>x. a_mul A (fl_integer floor (a_div A x precision)) precision) data)
      else if method = ''ceil'' then
        Inr (map (\<lambda>x. a_mul A (fl_integer ceiling (a_div A x precision)) precision) data)
      else Inl ValueError)"

section \<open>validate_statistics.py: StatisticalValidator\<close>

text \<open>
  The dataclass \<^verbatim>\<open>ValidationResult\<close>, without its two strings (\<^verbatim>\<open>metric_name\<close>, a
  constant, and \<^verbatim>\<open>message\<close>, a formatted copy of the odds ratio and the interval), and
  the validator with its tolerance and the list of the results it has returned.
\<close>

record ValidationResult =
  passed :: bool
  expected_value :: fl
  actual_value :: fl
  tolerance :: fl
  p_value :: "fl option"
  confidence_interval :: "fl option \<times> fl option"

record StatisticalValidator =
  validator_tolerance :: fl
  validator_results :: "ValidationResult list"

definition validator_init :: "fl \<Rightarrow> StatisticalValidator" where
  "validator_init tol = \<lparr>validator_tolerance = tol, validator_results = []\<rparr>"

text \<open>
  \<^verbatim>\<open>scipy.stats.norm.cdf\<close>, the distribution function of the standard normal
  distribution, by its power series
  \<open>1/2 + (1/\<surd>(2\<pi>)) \<Sum>n. (-1)^n x^(2n+1) / (2^n n! (2n+1))\<close>.
\<close>

definition norm_cdf :: "real \<Rightarrow> real" where
  "norm_cdf x =
     1 / 2 + (\<Sum>n. (- 1) ^ n * x ^ (2 * n + 1) / (2 ^ n * fact n * real (2 * n + 1)))
             / sqrt (2 * pi)"

text \<open>
  The four cells of the 2x2 table, \<^verbatim>\<open>np.sum((exposure == e) & (outcome == o))\<close>. The
  operator \<^verbatim>\<open>&\<close> works element by element on arrays of one length, repeats an array
  of length 1, and raises a \<^verbatim>\<open>ValueError\<close> for other lengths.
\<close>

definition np_logical_and :: "bool list \<Rightarrow> bool list \<Rightarrow> py_error + bool list" where
  "np_logical_and xs ys =
     (if length xs = length ys then Inr (map2 (\<and>) xs ys)
      else if length xs = 1 then Inr (map (\<lambda>y. hd xs \<and> y) ys)
      else if length ys = 1 then Inr (map (\<lambda>x. x \<and> hd ys) xs)
      else Inl ValueError)"

definition count_cell :: "int list \<Rightarrow> int \<Rightarrow> int list \<Rightarrow> int \<Rightarrow> py_error + int" where
  "count_cell exposure e outcome oc =
     (case np_logical_and (map (\<lambda>x. x = e) exposure) (map (\<lambda>y. y = oc) outcome) of
        Inl err \<Rightarrow> Inl err
      | Inr bs \<Rightarrow> Inr (int (length (filter id bs))))"

definition odds_table :: "int list \<Rightarrow> int list \<Rightarrow> py_error + int \<times> int \<times> int \<times> int" where
  "odds_table outcome exposure =
     (case count_cell exposure 1 outcome 1 of Inl err \<Rightarrow> Inl err | Inr a \<Rightarrow>
      case count_cell exposure 1 outcome 0 of Inl err \<Rightarrow> Inl err | Inr b \<Rightarrow>
      case count_cell exposure 0 outcome 1 of Inl err \<Rightarrow> Inl err | Inr c \<Rightarrow>
      case count_cell exposure 0 outcome 0 of Inl err \<Rightarrow> Inl err | Inr d \<Rightarrow>
        Inr (a, b, c, d))"

text \<open>
  \<^verbatim>\<open>
  def _check_value(self, actual, expected):
      if expected == 0:
          return abs(actual) < self.tolerance
      relative_error = abs(actual - expected) / abs(expected)
      return relative_error <= self.tolerance
  \<close>
\<close>

definition relative_error :: "fl \<Rightarrow> fl \<Rightarrow> fl" where
  "relative_error actual expected = fl_div (fl_abs (fl_sub actual expected)) (fl_abs expected)"

definition check_value :: "StatisticalValidator \<Rightarrow> fl \<Rightarrow> fl \<Rightarrow> bool" where
  "check_value self actual expected =
     (if expected = Fin 0 then fl_less (fl_abs actual) (validator_tolerance self)
      else fl_le (relative_error actual expected) (validator_tolerance self))"

text \<open>
  \<^verbatim>\<open>
  def validate_odds_ratio(self, outcome, exposure, expected_or,
                          expected_significant=True, alpha=0.05):
      a = np.sum((exposure == 1) & (outcome == 1))
      b = np.sum((exposure == 1) & (outcome == 0))
      c = np.sum((exposure == 0) & (outcome == 1))
      d = np.sum((exposure == 0) & (outcome == 0))
      if b == 0 or c == 0:
          actual_or = np.inf if a * d > 0 else 0
      else:
          actual_or = (a * d) / (b * c)
      if a > 0 and b > 0 and c > 0 and d > 0:
          se_log_or = np.sqrt(1/a + 1/b + 1/c + 1/d)
          log_or = np.log(actual_or)
          ci_log = (log_or - 1.96*se_log_or, log_or + 1.96*se_log_or)
          ci = (np.exp(ci_log[0]), np.exp(ci_log[1]))
          z = log_or / se_log_or
          p_value = 2 * (1 - stats.norm.cdf(abs(z)))
      else:
          ci = (None, None)
          p_value = None
      or_ok = self._check_value(actual_or, expected_or)
      if p_value is not None:
          if expected_significant:
              sig_ok = p_value < alpha
          else:
              sig_ok = p_value >= alpha
      else:
          sig_ok = False
      passed = or_ok and sig_ok
      result = ValidationResult(passed=passed, ..., expected_value=expected_or,
          actual_value=actual_or, tolerance=self.tolerance, p_value=p_value,
          confidence_interval=ci, ...)
      self.results.append(result)
      return result
  \<close>
\<close>

definition validate_odds_ratio ::
  "StatisticalValidator \<Rightarrow> int list \<Rightarrow> int list \<Rightarrow> fl \<Rightarrow> bool \<Rightarrow> fl
     \<Rightarrow> py_error + ValidationResult \<times> StatisticalValidator" where
  "validate_odds_ratio self outcome exposure expected_or expected_significant alpha =
     (case odds_table outcome exposure of
        Inl err \<Rightarrow> Inl err
      | Inr (a, b, c, d) \<Rightarrow>
          (let actual_or =
                 (if b = 0 \<or> c = 0 then (if a * d > 0 then PInf else Fin 0)
                  else Fin (real_of_int (a * d) / real_of_int (b * c)));
               (ci, p_val) =
                 (if a > 0 \<and> b > 0 \<and> c > 0 \<and> d > 0 then
                    (let se_log_or = sqrt (1 / real_of_int a + 1 / real_of_int b
                                           + 1 / real_of_int c + 1 / real_of_int d);
                         log_or = ln (real_of_int (a * d) / real_of_int (b * c));
                         ci_log = (log_or - 1.96 * se_log_or, log_or + 1.96 * se_log_or);
                         z = log_or / se_log_or
                     in ((Some (Fin (exp (fst ci_log))), Some (Fin (exp (snd ci_log)))),
                         Some (Fin (2 * (1 - norm_cdf \<bar>z\<bar>)))))
                  else ((None, None), None));
               or_ok = check_value self actual_or expected_or;
               sig_ok = (case p_val of
                           Some p \<Rightarrow> if expected_significant then fl_less p alpha
                                     else fl_le alpha p
                         | None \<Rightarrow> False);
               result = \<lparr>passed = or_ok \<and> sig_ok, expected_value = expected_or,
                         actual_value = actual_or, tolerance = validator_tolerance self,
                         p_value = p_val, confidence_interval = ci\<rparr>
           in Inr (result, self\<lparr>validator_results := validator_results self @ [result]\<rparr>)))"

text \<open>
  The pass criterion in the words of the specification: the relative error of the
  realized odds ratio is at most the tolerance, and the observed significance matches
  the expected one (\<open>p < \<alpha>\<close> when significance is expected, \<open>p \<ge> \<alpha>\<close> when not; an
  undefined p-value matches nothing). A relative error with a zero divisor is \<open>inf\<close> or
  \<open>nan\<close>, and is at most no tolerance.
\<close>

definition significance_matches :: "fl option \<Rightarrow> bool \<Rightarrow> fl \<Rightarrow> bool" where
  "significance_matches p expected_significant alpha =
     (case p of
        None \<Rightarrow> False
      | Some pv \<Rightarrow> if expected_significant then fl_less pv alpha else fl_le alpha pv)"

definition stated_pass_criterion :: "ValidationResult \<Rightarrow> bool \<Rightarrow> fl \<Rightarrow> bool" where
  "stated_pass_criterion r expected_significant alpha \<longleftrightarrow>
     fl_le (relative_error (actual_value r) (expected_value r)) (tolerance r)
     \<and> significance_matches (p_value r) expected_significant alpha"

section \<open>Properties of ContinuousVariableGenerator\<close>

lemma cvg_init_seeded_eq: "cvg_init np (Some s) g1 = cvg_init np (Some s) g2"
  by (simp add: cvg_init_def)

text \<open>
  Claim C1. For every seed \<open>s\<close>: a run that constructs a generator with
  \<^verbatim>\<open>random_seed = s\<close> and calls a sampler with given arguments returns the same array
  (or raises the same exception) whatever the state of the process-wide generator was
  before the run, so two such runs return identical arrays. This holds for every method
  of the generator (any function of the object, its arguments and the generator state),
  for the four distribution samplers in particular, and for the convenience function
  \<^verbatim>\<open>generate_continuous_variable(n, ..., random_seed=s)\<close>.
\<close>

theorem seeded_sampler_deterministic:
  "returned (cvg_run np (Some s) method g1) = returned (cvg_run np (Some s) method g2)
   \<and> returned (cvg_run np (Some s)
        (\<lambda>self. generate_normal np self n mean std min_val max_val) g1)
     = returned (cvg_run np (Some s)
        (\<lambda>self. generate_normal np self n mean std min_val max_val) g2)
   \<and> returned (cvg_run np (Some s)
        (\<lambda>self. generate_lognormal np self n mean std min_val max_val) g1)
     = returned (cvg_run np (Some s)
        (\<lambda>self. generate_lognormal np self n mean std min_val max_val) g2)
   \<and> returned (cvg_run np (Some s)
        (\<lambda>self. generate_skewed np self n mean std skewness min_val max_val) g1)
     = returned (cvg_run np (Some s)
        (\<lambda>self. generate_skewed np self n mean std skewness min_val max_val) g2)
   \<and> returned (cvg_run np (Some s) (\<lambda>self. generate_uniform np self n low high) g1)
     = returned (cvg_run np (Some s) (\<lambda>self. generate_uniform np self n low high) g2)
   \<and> returned (generate_continuous_variable np n distribution mean std min_val max_val
        skewness (Some s) kwargs g1)
     = returned (generate_continuous_variable np n distribution mean std min_val max_val
        skewness (Some s) kwargs g2)"
  unfolding cvg_run_def generate_continuous_variable_def
  by (simp only: cvg_init_seeded_eq [of np s g1 g2] simp_thms)

section \<open>Properties of adjust_effect_size\<close>

lemma fl_div_zero_result:
  "fl_div a b = Fin 0 \<Longrightarrow> a \<noteq> NaN \<and> b \<noteq> NaN \<and> b \<noteq> Fin 0"
  by (cases a; cases b) (auto simp: fl_inf_def split: if_splits)

lemma fl_sub_self: "fl_mul (fl_sub x x) (fl_sub x x) = Fin 0 \<or> fl_mul (fl_sub x x) (fl_sub x x) = NaN"
  by (cases x) (auto simp: fl_sub_def)

lemma fl_add_zero: "fl_add x (Fin 0) = x"
  by (cases x) auto

lemma fl_div_one: "fl_div x (Fin 1) = x"
  by (cases x) (auto simp: fl_inf_def)

lemma np_var_singleton: "np_var [x] 1 = NaN"
  using fl_sub_self [of x]
  by (auto simp: np_var_def np_mean_def fl_sum_def fl_add_zero fl_div_one)

lemma np_var_empty: "np_var [] 1 = NaN"
  by (simp add: np_var_def fl_sum_def)

lemma np_var_short: "length xs < 2 \<Longrightarrow> np_var xs 1 = NaN"
proof (cases xs)
  case Nil
  then show ?thesis by (simp add: np_var_empty)
next
  case (Cons x ys)
  assume "length xs < 2"
  with Cons have "ys = []" by simp
  with Cons show ?thesis by (simp add: np_var_singleton)
qed

lemma fl_nan_right:
  "fl_add x NaN = NaN" "fl_mul x NaN = NaN" "fl_div x NaN = NaN" "fl_sub x NaN = NaN"
  by (cases x; simp add: fl_sub_def)+

lemma pooled_std_short:
  "length g0 < 2 \<or> length g1 < 2 \<Longrightarrow> pooled_std g0 g1 = NaN"
  by (auto simp: pooled_std_def Let_def np_var_short fl_nan_right)

lemma cohens_d_zero_sizes:
  assumes "fl_div (fl_sub (np_mean g1) (np_mean g0)) (pooled_std g0 g1) = Fin 0"
  shows "2 \<le> length g0 \<and> 2 \<le> length g1 \<and> pooled_std g0 g1 \<noteq> Fin 0"
proof -
  from fl_div_zero_result [OF assms]
  have "pooled_std g0 g1 \<noteq> NaN" "pooled_std g0 g1 \<noteq> Fin 0" by auto
  with pooled_std_short [of g0 g1] show ?thesis by force
qed

lemma cohens_d_zero_divisors:
  assumes "calculate_cohens_d data grp = Inr (Fin 0)"
  shows "Fin 0 \<notin> set (cohens_d_divisors data grp)"
proof -
  from assms obtain g0 g1 where
    g: "group_values (as_float data) grp 0 = Inr g0"
       "group_values (as_float data) grp 1 = Inr g1"
    and d: "fl_div (fl_sub (np_mean g1) (np_mean g0)) (pooled_std g0 g1) = Fin 0"
    by (auto simp: calculate_cohens_d_def split: sum.splits)
  from cohens_d_zero_sizes [OF d] g show ?thesis
    by (auto simp: cohens_d_divisors_def Let_def)
qed

text \<open>
  Claim C3. When the current effect size is zero, \<^verbatim>\<open>adjust_effect_size\<close> returns its
  input array unchanged, raises nothing and divides by zero nowhere: for every data array
  (of either dtype), group array and target. With the effect size given as 0 the call
  returns before any division; with the effect size omitted and
  \<^verbatim>\<open>_calculate_cohens_d\<close> returning 0, every divisor in that computation is nonzero
  (both groups have at least two elements and the pooled standard deviation is not zero,
  otherwise the quotient would be \<open>nan\<close> or \<open>inf\<close>), and the call returns the input
  array.
\<close>

theorem zero_effect_size_returns_data:
  "adjust_effect_size self data grp target (Some (Fin 0)) = Inr data
   \<and> Fin 0 \<notin> set (zero_effect_divisors data grp (Some (Fin 0)))
   \<and> (calculate_cohens_d data grp = Inr (Fin 0) \<longrightarrow>
        adjust_effect_size self data grp target None = Inr data
        \<and> Fin 0 \<notin> set (zero_effect_divisors data grp None))"
  by (simp add: adjust_effect_size_def effect_size_in_use_def zero_effect_divisors_def
      cohens_d_zero_divisors)

lemma cohens_d_equal_means:
  "calculate_cohens_d (Float64 (map Fin [-1, 0, 1, -1, 0, 1])) [0, 0, 0, 1, 1, 1] = Inr (Fin 0)"
  by (simp add: calculate_cohens_d_def group_values_def mask_index_def pooled_std_def
      np_var_def np_mean_def fl_sum_def fl_sub_def Let_def)

text \<open>The theorem at two groups with equal means: Cohen's d is computed as 0.\<close>

theorem zero_effect_size_returns_data_witness:
  "calculate_cohens_d (Float64 (map Fin [-1, 0, 1, -1, 0, 1])) [0, 0, 0, 1, 1, 1] = Inr (Fin 0)
   \<and> adjust_effect_size \<lparr>cvg_random_seed = None\<rparr> (Float64 (map Fin [-1, 0, 1, -1, 0, 1]))
         [0, 0, 0, 1, 1, 1] (Fin 2) None = Inr (Float64 (map Fin [-1, 0, 1, -1, 0, 1]))
   \<and> Fin 0 \<notin> set (zero_effect_divisors (Float64 (map Fin [-1, 0, 1, -1, 0, 1]))
         [0, 0, 0, 1, 1, 1] None)"
  using zero_effect_size_returns_data
    [of "\<lparr>cvg_random_seed = None\<rparr>" "Float64 (map Fin [-1, 0, 1, -1, 0, 1])"
        "[0, 0, 0, 1, 1, 1]" "Fin 2"]
    cohens_d_equal_means
  by simp







lemma fl_sum_Fin: "fl_sum (map Fin ys) = Fin (sum_list ys)"
  by (induction ys) (simp_all add: fl_sum_def)

lemma np_mean_Fin: "ys \<noteq> [] \<Longrightarrow> np_mean (map Fin ys) = Fin (rmean ys)"
  by (simp add: np_mean_def fl_sum_Fin rmean_def)

lemma np_var_Fin:
  assumes "2 \<le> length ys"
  shows "np_var (map Fin ys) 1 = Fin (rssq ys / (real (length ys) - 1))"
proof -
  from assms have ne: "ys \<noteq> []" by auto
  have "map (\<lambda>x. fl_mul (fl_sub x (Fin (rmean ys))) (fl_sub x (Fin (rmean ys)))) (map Fin ys)
        = map Fin (map (\<lambda>y. (y - rmean ys) * (y - rmean ys)) ys)"
    by (simp add: fl_sub_def)
  then have "fl_sum (map (\<lambda>x. fl_mul (fl_sub x (Fin (rmean ys))) (fl_sub x (Fin (rmean ys))))
        (map Fin ys)) = Fin (rssq ys)"
    by (simp only: fl_sum_Fin rssq_def)
  with assms ne show ?thesis
    by (simp add: np_var_def np_mean_Fin Let_def max_def of_nat_diff)
qed

lemma rssq_nonneg: "0 \<le> rssq ys"
  unfolding rssq_def by (rule sum_list_nonneg) auto

lemma pooled_std_Fin:
  assumes "2 \<le> length a" "2 \<le> length b"
  shows "pooled_std (map Fin a) (map Fin b)
         = Fin (sqrt ((rssq a + rssq b) / (real (length a) + real (length b) - 2)))"
proof -
  have nn: "0 \<le> (rssq a + rssq b) / (real (length a) + real (length b) - 2)"
    using assms rssq_nonneg [of a] rssq_nonneg [of b] by (intro divide_nonneg_nonneg) auto
  show ?thesis using assms nn
    by (simp add: pooled_std_def np_var_Fin Let_def)
qed

lemma mask_index_Fin:
  "length bs = length xs \<Longrightarrow> mask_index (map Fin xs) bs = Inr (map Fin (pick xs bs))"
  by (simp add: mask_index_def pick_def zip_map1 filter_map comp_def case_prod_beta)

lemma pick_shift1_one:
  "length grp = length xs \<Longrightarrow>
   pick (shift1 c xs grp) (map (\<lambda>g. g = 1) grp) = map (\<lambda>y. y + c) (pick xs (map (\<lambda>g. g = 1) grp))"
  by (induction grp xs rule: list_induct2) (simp_all add: pick_def shift1_def)

lemma pick_shift1_zero:
  "length grp = length xs \<Longrightarrow>
   pick (shift1 c xs grp) (map (\<lambda>g. g = 0) grp) = pick xs (map (\<lambda>g. g = 0) grp)"
  by (induction grp xs rule: list_induct2) (simp_all add: pick_def shift1_def)

lemma sum_list_shift: "sum_list (map (\<lambda>y. y + c) ys) = sum_list ys + real (length ys) * c"
  by (induction ys) (simp_all add: algebra_simps)

lemma rmean_shift: "ys \<noteq> [] \<Longrightarrow> rmean (map (\<lambda>y. y + c) ys) = rmean ys + c"
  by (simp add: rmean_def sum_list_shift add_divide_distrib)

lemma rssq_shift: "ys \<noteq> [] \<Longrightarrow> rssq (map (\<lambda>y. y + c) ys) = rssq ys"
  by (simp add: rssq_def rmean_shift comp_def)

lemma not_one_is_zero:
  "set grp \<subseteq> {0, 1} \<Longrightarrow> map (\<lambda>g. g \<noteq> 1) grp = map (\<lambda>g. g = (0::int)) grp"
  by (induction grp) auto

lemma shifted_output:
  "length grp = length xs \<Longrightarrow>
   map2 (\<lambda>x m. if m then fl_add (fl_sub x (Fin md)) (Fin nmd) else x)
      (map Fin xs) (map (\<lambda>g. g = 1) grp)
   = map Fin (shift1 (nmd - md) xs grp)"
  by (induction grp xs rule: list_induct2) (simp_all add: shift1_def fl_sub_def)

lemma int_cohens_d_before:
  "calculate_cohens_d (Int64 [-1, 0, 1, 0, 1, 2]) [0, 0, 0, 1, 1, 1] = Inr (Fin 1)"
  by (simp add: calculate_cohens_d_def group_values_def mask_index_def pooled_std_def
      np_var_def np_mean_def fl_sum_def fl_sub_def Let_def)

lemma int_cohens_d_after:
  "calculate_cohens_d (Int64 [-1, 0, 1, 1, 2, 3]) [0, 0, 0, 1, 1, 1] = Inr (Fin 2)"
  by (simp add: calculate_cohens_d_def group_values_def mask_index_def pooled_std_def
      np_var_def np_mean_def fl_sum_def fl_sub_def Let_def)

lemma int_adjust_run:
  "adjust_effect_size self (Int64 [-1, 0, 1, 0, 1, 2]) [0, 0, 0, 1, 1, 1] (Fin 2.5) None
   = Inr (Int64 [-1, 0, 1, 1, 2, 3])"
  by (simp add: adjust_effect_size_def effect_size_in_use_def int_cohens_d_before
      mask_index_def np_mean_def fl_sum_def fl_sub_def trunc_toward_zero_def Let_def)

text \<open>
  Claim C10, as it is stated for every data array, fails on an array of integers. For the
  \<^verbatim>\<open>int64\<close> data \<open>[-1, 0, 1, 0, 1, 2]\<close> with groups \<open>[0, 0, 0, 1, 1, 1]\<close> (three
  elements in each group, pooled standard deviation 1, Cohen's d 1) and target 2.5, the
  new values 1.5, 2.5, 3.5 of group 1 are stored into the integer copy as 1, 2, 3, and
  the returned array has Cohen's d 2, not 2.5. Every step is exact.
\<close>

theorem integer_array_counterexample:
  "group_values (as_float (Int64 [-1, 0, 1, 0, 1, 2])) [0, 0, 0, 1, 1, 1] 0
     = Inr (map Fin [-1, 0, 1])
   \<and> group_values (as_float (Int64 [-1, 0, 1, 0, 1, 2])) [0, 0, 0, 1, 1, 1] 1
     = Inr (map Fin [0, 1, 2])
   \<and> pooled_std (map Fin [-1, 0, 1]) (map Fin [0, 1, 2]) = Fin 1
   \<and> calculate_cohens_d (Int64 [-1, 0, 1, 0, 1, 2]) [0, 0, 0, 1, 1, 1] = Inr (Fin 1)
   \<and> adjust_effect_size \<lparr>cvg_random_seed = None\<rparr> (Int64 [-1, 0, 1, 0, 1, 2])
        [0, 0, 0, 1, 1, 1] (Fin 2.5) None = Inr (Int64 [-1, 0, 1, 1, 2, 3])
   \<and> calculate_cohens_d (Int64 [-1, 0, 1, 1, 2, 3]) [0, 0, 0, 1, 1, 1] = Inr (Fin 2)
   \<and> calculate_cohens_d (Int64 [-1, 0, 1, 1, 2, 3]) [0, 0, 0, 1, 1, 1] \<noteq> Inr (Fin 2.5)"
proof -
  have g: "group_values (as_float (Int64 [-1, 0, 1, 0, 1, 2])) [0, 0, 0, 1, 1, 1] 0
             = Inr (map Fin [-1, 0, 1])"
    "group_values (as_float (Int64 [-1, 0, 1, 0, 1, 2])) [0, 0, 0, 1, 1, 1] 1
             = Inr (map Fin [0, 1, 2])"
    by (simp_all add: group_values_def mask_index_def)
  have ps: "pooled_std (map Fin [-1, 0, 1]) (map Fin [0, 1, 2]) = Fin 1"
    by (simp add: pooled_std_def np_var_def np_mean_def fl_sum_def fl_sub_def Let_def)
  from g ps int_cohens_d_before int_cohens_d_after
    int_adjust_run [of "\<lparr>cvg_random_seed = None\<rparr>"]
  show ?thesis by simp
qed

text \<open>
  Claim C10, amended. In exact real arithmetic: for a data array of dtype \<^verbatim>\<open>float64\<close>
  (of real numbers) and a group array of zeros and ones of the same length, with at least
  two elements in each group, a nonzero pooled standard deviation, and a current effect
  size that is omitted and computed as nonzero, \<^verbatim>\<open>adjust_effect_size\<close> returns an array
  whose Cohen's d, as \<^verbatim>\<open>_calculate_cohens_d\<close> computes it, is the target effect size
  (every element of group 1 is shifted by one constant, so the variances within the
  groups stay and the difference of the means becomes the pooled standard deviation times
  the target).
\<close>

theorem adjusted_cohens_d_is_target:
  assumes len: "length grp = length xs" and bin: "set grp \<subseteq> {0, 1}"
    and g0: "group_values (as_float (Float64 (map Fin xs))) grp 0 = Inr g0"
    and g1: "group_values (as_float (Float64 (map Fin xs))) grp 1 = Inr g1"
    and n0: "2 \<le> length g0" and n1: "2 \<le> length g1"
    and ps: "pooled_std g0 g1 \<noteq> Fin 0"
    and d0: "calculate_cohens_d (Float64 (map Fin xs)) grp \<noteq> Inr (Fin 0)"
  shows "\<exists>out. adjust_effect_size self (Float64 (map Fin xs)) grp (Fin t) None = Inr out
           \<and> is_float64 out
           \<and> calculate_cohens_d out grp = Inr (Fin t)"
proof -
  define y0 where "y0 = pick xs (map (\<lambda>g. g = 0) grp)"
  define y1 where "y1 = pick xs (map (\<lambda>g. g = 1) grp)"
  define s where "s = sqrt ((rssq y0 + rssq y1) / (real (length y0) + real (length y1) - 2))"
  define md where "md = rmean y1 - rmean y0"
  from len g0 have e0: "g0 = map Fin y0"
    by (simp add: group_values_def mask_index_Fin y0_def)
  from len g1 have e1: "g1 = map Fin y1"
    by (simp add: group_values_def mask_index_Fin y1_def)
  from n0 e0 have l0: "2 \<le> length y0" and ne0: "y0 \<noteq> []" by auto
  from n1 e1 have l1: "2 \<le> length y1" and ne1: "y1 \<noteq> []" by auto
  have pse: "pooled_std g0 g1 = Fin s"
    unfolding e0 e1 s_def by (rule pooled_std_Fin [OF l0 l1])
  with ps have s0: "s \<noteq> 0" by simp
  have d: "calculate_cohens_d (Float64 (map Fin xs)) grp = Inr (Fin (md / s))"
    using g0 g1 pse s0 ne0 ne1
    by (simp add: calculate_cohens_d_def e0 e1 np_mean_Fin fl_sub_def md_def)
  with d0 have md0: "md \<noteq> 0" by auto
  have m0: "mask_index (map Fin xs) (map Not (map (\<lambda>g. g = 1) grp)) = Inr (map Fin y0)"
    using len bin by (simp add: comp_def not_one_is_zero mask_index_Fin y0_def)
  have m1: "mask_index (map Fin xs) (map (\<lambda>g. g = 1) grp) = Inr (map Fin y1)"
    using len by (simp add: mask_index_Fin y1_def)
  define nmd where "nmd = md * (t / (md / s))"
  define c where "c = nmd - md"
  define F where "F = (\<lambda>x m. if m
      then fl_add (fl_sub x (fl_sub (np_mean (map Fin y1)) (np_mean (map Fin y0))))
             (fl_mul (fl_sub (np_mean (map Fin y1)) (np_mean (map Fin y0)))
                (fl_div (Fin t) (Fin (md / s))))
      else x)"
  have a1: "effect_size_in_use (Float64 (map Fin xs)) grp None = Inr (Fin (md / s))"
    using d by (simp add: effect_size_in_use_def)
  have dz: "md / s \<noteq> 0" using md0 s0 by simp
  have a2: "adjust_effect_size self (Float64 (map Fin xs)) grp (Fin t) None
            = Inr (Float64 (map2 F (map Fin xs) (map (\<lambda>g. g = 1) grp)))"
    unfolding adjust_effect_size_def a1 using dz m0 m1 by (auto simp: Let_def F_def)
  have Feq: "F = (\<lambda>x m. if m then fl_add (fl_sub x (Fin md)) (Fin nmd) else x)"
    using dz ne0 ne1 by (intro ext) (simp add: F_def np_mean_Fin fl_sub_def md_def nmd_def)
  have out: "adjust_effect_size self (Float64 (map Fin xs)) grp (Fin t) None
             = Inr (Float64 (map Fin (shift1 c xs grp)))"
    unfolding a2 Feq c_def using len by (simp only: shifted_output)
  have lsh: "length grp = length (shift1 c xs grp)"
    using len by (simp add: shift1_def)
  define y1s where "y1s = map (\<lambda>y. y + c) y1"
  have ne1s: "y1s \<noteq> []" and l1s: "2 \<le> length y1s" using ne1 l1 by (simp_all add: y1s_def)
  have p0: "group_values (map Fin (shift1 c xs grp)) grp 0 = Inr (map Fin y0)"
    using len lsh by (simp add: group_values_def mask_index_Fin pick_shift1_zero y0_def)
  have p1: "group_values (map Fin (shift1 c xs grp)) grp 1 = Inr (map Fin y1s)"
    using len lsh
    by (simp only: group_values_def mask_index_Fin length_map pick_shift1_one y1_def y1s_def)
  have len1s: "length y1s = length y1" by (simp add: y1s_def)
  have r1: "rssq y1s = rssq y1" and mu1: "rmean y1s = rmean y1 + c"
    using ne1 by (simp_all add: y1s_def rssq_shift rmean_shift)
  have pse': "pooled_std (map Fin y0) (map Fin y1s) = Fin s"
    using pooled_std_Fin [OF l0 l1s] by (simp add: r1 s_def len1s)
  have val: "(rmean y1 + c - rmean y0) / s = t"
    using md0 s0 by (simp add: c_def nmd_def md_def field_simps)
  have "calculate_cohens_d (Float64 (map Fin (shift1 c xs grp))) grp = Inr (Fin t)"
    using p0 p1 pse' s0 ne0 ne1s val
    by (simp add: calculate_cohens_d_def np_mean_Fin mu1 fl_sub_def)
  with out show ?thesis by auto
qed

text \<open>The theorem at \<open>[-1, 0, 1]\<close> against \<open>[0, 1, 2]\<close> (Cohen's d 1), as floats, and
  target 2.5: the returned array has Cohen's d 2.5.\<close>

theorem adjusted_cohens_d_is_target_witness:
  "length [0, 0, 0, 1, 1, 1 :: int] = length [-1, 0, 1, 0, 1, 2 :: real]
   \<and> set [0, 0, 0, 1, 1, 1 :: int] \<subseteq> {0, 1}
   \<and> group_values (as_float (Float64 (map Fin [-1, 0, 1, 0, 1, 2]))) [0, 0, 0, 1, 1, 1] 0
       = Inr (map Fin [-1, 0, 1])
   \<and> group_values (as_float (Float64 (map Fin [-1, 0, 1, 0, 1, 2]))) [0, 0, 0, 1, 1, 1] 1
       = Inr (map Fin [0, 1, 2])
   \<and> pooled_std (map Fin [-1, 0, 1]) (map Fin [0, 1, 2]) = Fin 1
   \<and> calculate_cohens_d (Float64 (map Fin [-1, 0, 1, 0, 1, 2])) [0, 0, 0, 1, 1, 1]
       = Inr (Fin 1)
   \<and> (\<exists>out. adjust_effect_size \<lparr>cvg_random_seed = None\<rparr>
                 (Float64 (map Fin [-1, 0, 1, 0, 1, 2])) [0, 0, 0, 1, 1, 1] (Fin 2.5) None
                 = Inr out
              \<and> is_float64 out
              \<and> calculate_cohens_d out [0, 0, 0, 1, 1, 1] = Inr (Fin 2.5))"
proof -
  have len: "length [0, 0, 0, 1, 1, 1 :: int] = length [-1, 0, 1, 0, 1, 2 :: real]" by simp
  have bin: "set [0, 0, 0, 1, 1, 1 :: int] \<subseteq> {0, 1}" by simp
  have g0: "group_values (as_float (Float64 (map Fin [-1, 0, 1, 0, 1, 2])))
              [0, 0, 0, 1, 1, 1] 0 = Inr (map Fin [-1, 0, 1])"
    by (simp add: group_values_def mask_index_def)
  have g1: "group_values (as_float (Float64 (map Fin [-1, 0, 1, 0, 1, 2])))
              [0, 0, 0, 1, 1, 1] 1 = Inr (map Fin [0, 1, 2])"
    by (simp add: group_values_def mask_index_def)
  have n0: "2 \<le> length (map Fin [-1, 0, 1])" and n1: "2 \<le> length (map Fin [0, 1, 2])"
    by simp_all
  have ps: "pooled_std (map Fin [-1, 0, 1]) (map Fin [0, 1, 2]) = Fin 1"
    by (simp add: pooled_std_def np_var_def np_mean_def fl_sum_def fl_sub_def Let_def)
  then have ps0: "pooled_std (map Fin [-1, 0, 1]) (map Fin [0, 1, 2]) \<noteq> Fin 0" by simp
  have d: "calculate_cohens_d (Float64 (map Fin [-1, 0, 1, 0, 1, 2])) [0, 0, 0, 1, 1, 1]
           = Inr (Fin 1)"
    using g0 g1 ps
    by (simp add: calculate_cohens_d_def np_mean_def fl_sum_def fl_sub_def)
  then have d0: "calculate_cohens_d (Float64 (map Fin [-1, 0, 1, 0, 1, 2])) [0, 0, 0, 1, 1, 1]
                 \<noteq> Inr (Fin 0)" by simp
  from adjusted_cohens_d_is_target [OF len bin g0 g1 n0 n1 ps0 d0,
      of "\<lparr>cvg_random_seed = None\<rparr>" "2.5"]
  show ?thesis using len bin g0 g1 ps d by simp
qed

section \<open>Properties of generate_censoring\<close>

lemma np_maximum_nonneg:
  "nonneg_number a \<Longrightarrow> nonneg_number b \<Longrightarrow> nonneg_number (np_maximum a b)"
  by (cases a; cases b) (simp_all add: nonneg_number_def)

lemma foldl_maximum_nonneg:
  "nonneg_number x \<Longrightarrow> list_all nonneg_number ys \<Longrightarrow> nonneg_number (foldl np_maximum x ys)"
  by (induction ys arbitrary: x) (simp_all add: np_maximum_nonneg)

lemma np_max_nonneg:
  "list_all nonneg_number xs \<Longrightarrow> np_max xs = Inr m \<Longrightarrow> nonneg_number m"
  by (cases xs) (auto simp: np_max_def foldl_maximum_nonneg)

lemma scaled_max_nonneg:
  "list_all nonneg_number xs \<Longrightarrow> 0 \<le> k \<Longrightarrow> scaled_max xs k = Inr m \<Longrightarrow> fl_le (Fin 0) m"
  by (auto simp: scaled_max_def nonneg_number_def split: sum.splits fl.splits
      dest!: np_max_nonneg)

lemma double_nonneg: "fl_le (Fin 0) m \<Longrightarrow> fl_le (Fin 0) (fl_mul m (Fin 2))"
  by (cases m) (simp_all add: fl_inf_def)

lemma minimum_nonneg:
  "nonneg_number s \<Longrightarrow> fl_le (Fin 0) c \<Longrightarrow> fl_le (Fin 0) (np_minimum s c)"
  by (cases s; cases c) (simp_all add: nonneg_number_def)

lemma minimum_le_right:
  "nonneg_number s \<Longrightarrow> fl_le (Fin 0) c \<Longrightarrow> fl_le (np_minimum s c) c"
  by (cases s; cases c) (simp_all add: nonneg_number_def)

lemma minimum_by_flag:
  "nonneg_number s \<Longrightarrow> fl_le (Fin 0) c \<Longrightarrow>
   np_minimum s c = (if fl_le s c then s else c)"
  by (cases s; cases c) (simp_all add: nonneg_number_def)

lemma np_where_all:
  "list_all P xs \<Longrightarrow> list_all P ys \<Longrightarrow> list_all P (np_where c xs ys)"
  by (auto simp: np_where_def list_all_iff elim!: in_set_zipE)

lemma censoring_times_nonneg:
  assumes np: "numpy_contract np"
    and surv: "list_all nonneg_number survival_time"
    and mf: "case max_followup of None \<Rightarrow> True | Some m \<Rightarrow> fl_le (Fin 0) m"
    and ct: "censoring_times np survival_time censoring_rate censoring_type max_followup g
             = Inr (censoring_time, g')"
  shows "length censoring_time = length survival_time
         \<and> list_all (fl_le (Fin 0)) censoring_time
         \<and> (censoring_type = ''administrative'' \<longrightarrow>
              (\<forall>m. max_followup = Some m \<longrightarrow> censoring_time = replicate (length survival_time) m))"
proof -
  have uni: "\<And>hi n g xs g'. np_uniform np (Fin 0) hi n g = Inr (xs, g') \<Longrightarrow> fl_le (Fin 0) hi
      \<Longrightarrow> length xs = nat n \<and> list_all (fl_le (Fin 0)) xs"
    using np unfolding numpy_contract_def list_all_iff by blast
  have bin: "\<And>k p n g xs g'. np_binomial np k p n g = Inr (xs, g') \<Longrightarrow> length xs = n"
    using np unfolding numpy_contract_def by blast
  have pct: "\<And>q v. np_percentile np survival_time q = Inr v \<Longrightarrow> survival_time \<noteq> []
      \<Longrightarrow> fl_le (Fin 0) v"
    using np surv unfolding numpy_contract_def by blast
  have fu: "\<And>k mfv. 0 \<le> k \<Longrightarrow> followup_or max_followup (scaled_max survival_time k) = Inr mfv
      \<Longrightarrow> fl_le (Fin 0) mfv"
    using mf surv by (auto simp: followup_or_def split: option.splits dest: scaled_max_nonneg)
  consider (r) "censoring_type = ''random''" | (a) "censoring_type = ''administrative''"
    | (m) "censoring_type = ''mixed''"
    | (o) "censoring_type \<noteq> ''random''" "censoring_type \<noteq> ''administrative''"
          "censoring_type \<noteq> ''mixed''"
    by blast
  then show ?thesis
  proof cases
    case r
    with ct obtain mfv where
      1: "followup_or max_followup (scaled_max survival_time 1.5) = Inr mfv"
      and 2: "np_uniform np (Fin 0) (fl_mul mfv (Fin 2)) (int (length survival_time)) g
              = Inr (censoring_time, g')"
      by (auto simp: censoring_times_def Let_def split: sum.splits)
    from fu [OF _ 1] have "fl_le (Fin 0) (fl_mul mfv (Fin 2))" by (simp add: double_nonneg)
    from uni [OF 2 this] r show ?thesis by simp
  next
    case a
    with ct obtain mfv where
      1: "followup_or max_followup (np_percentile np survival_time
            (fl_mul (Fin 100) (fl_sub (Fin 1) censoring_rate))) = Inr mfv"
      and 2: "censoring_time = replicate (length survival_time) mfv"
      by (auto simp: censoring_times_def Let_def split: sum.splits)
    have "survival_time \<noteq> [] \<Longrightarrow> fl_le (Fin 0) mfv"
      using 1 mf pct by (auto simp: followup_or_def split: option.splits)
    then have "list_all (fl_le (Fin 0)) censoring_time"
      unfolding 2 by (cases survival_time) (auto simp: list_all_iff)
    with 1 2 a show ?thesis by (auto simp: followup_or_def)
  next
    case m
    with ct obtain mfv random_censor g1 mix_probs where
      1: "followup_or max_followup (scaled_max survival_time 1.2) = Inr mfv"
      and 2: "np_uniform np (Fin 0) (fl_mul mfv (Fin 2)) (int (length survival_time)) g
              = Inr (random_censor, g1)"
      and 3: "np_binomial np 1 (Fin 0.5) (length survival_time) g1 = Inr (mix_probs, g')"
      and 4: "censoring_time
              = np_where mix_probs random_censor (replicate (length survival_time) mfv)"
      by (auto simp: censoring_times_def Let_def split: sum.splits)
    from fu [OF _ 1] have p: "fl_le (Fin 0) mfv" by simp
    then have "fl_le (Fin 0) (fl_mul mfv (Fin 2))" by (simp add: double_nonneg)
    from uni [OF 2 this] have u: "length random_censor = length survival_time"
      "list_all (fl_le (Fin 0)) random_censor" by simp_all
    from bin [OF 3] have b: "length mix_probs = length survival_time" .
    have "length censoring_time = length survival_time"
      unfolding 4 np_where_def using u b by simp
    moreover have "list_all (fl_le (Fin 0)) censoring_time"
      unfolding 4 using u(2) p by (intro np_where_all) (simp_all add: list_all_iff)
    ultimately show ?thesis using m by simp
  next
    case o
    with ct show ?thesis by (simp add: censoring_times_def)
  qed
qed

lemma map2_all:
  "list_all P xs \<Longrightarrow> list_all Q ys \<Longrightarrow> (\<And>x y. P x \<Longrightarrow> Q y \<Longrightarrow> R (f x y))
   \<Longrightarrow> list_all R (map2 f xs ys)"
  by (auto simp: list_all_iff elim!: in_set_zipE)

text \<open>
  Claim C5, as it is stated, fails: the survival times are not negative, yet an observed
  time is. \<^verbatim>\<open>generate_censoring([1.0], censoring_type='administrative',
  max_followup=-1.0)\<close> returns the observed time \<open>-1\<close>: the function takes any number as
  maximum follow-up.
\<close>

theorem negative_followup_counterexample:
  "generate_censoring lcg_numpy \<lparr>sdg_random_seed = None\<rparr> [Fin 1] (Fin 0.2)
      ''administrative'' (Some (Fin (- 1))) 0 = Inr (([Fin (- 1)], [0]), 0)
   \<and> list_all nonneg_number [Fin 1]
   \<and> \<not> list_all (fl_le (Fin 0)) [Fin (- 1)]"
  by (simp add: generate_censoring_def censoring_times_def followup_or_def nonneg_number_def)

text \<open>
  Claim C5, amended. For every call of \<^verbatim>\<open>generate_censoring\<close> on an array of
  non-negative numbers in which \<^verbatim>\<open>max_followup\<close>, when given, is not negative: when the
  call returns, the observed time is the minimum of survival time and censoring time
  element by element, the event flag is 1 where the survival time is at most the
  censoring time (the observed time is then the survival time) and 0 otherwise (the
  observed time is then the censoring time), no observed time is negative, and with
  \<^verbatim>\<open>censoring_type='administrative'\<close> and \<^verbatim>\<open>max_followup\<close> given no observed time
  exceeds \<^verbatim>\<open>max_followup\<close>; such an administrative call always returns.
\<close>

theorem generate_censoring_invariants:
  assumes np: "numpy_contract np"
    and surv: "list_all nonneg_number survival_time"
    and mf: "case max_followup of None \<Rightarrow> True | Some m \<Rightarrow> fl_le (Fin 0) m"
  shows "(censoring_type = ''administrative'' \<and> max_followup \<noteq> None \<longrightarrow>
            (\<exists>r. generate_censoring np self survival_time censoring_rate censoring_type
                    max_followup g = Inr r))
       \<and> (\<forall>observed_time event g'.
            generate_censoring np self survival_time censoring_rate censoring_type
              max_followup g = Inr ((observed_time, event), g') \<longrightarrow>
            (\<exists>censoring_time.
               censoring_times np survival_time censoring_rate censoring_type max_followup g
                 = Inr (censoring_time, g')
               \<and> length censoring_time = length survival_time
               \<and> observed_time = map2 np_minimum survival_time censoring_time
               \<and> event = map2 (\<lambda>s c. if fl_le s c then 1 else 0) survival_time censoring_time
               \<and> (\<forall>i < length survival_time.
                     observed_time ! i
                       = (if event ! i = 1 then survival_time ! i else censoring_time ! i)))
            \<and> list_all (fl_le (Fin 0)) observed_time
            \<and> (censoring_type = ''administrative'' \<longrightarrow>
                 (\<forall>m. max_followup = Some m \<longrightarrow> list_all (\<lambda>t. fl_le t m) observed_time)))"
proof (intro conjI allI impI)
  assume "censoring_type = ''administrative'' \<and> max_followup \<noteq> None"
  then show "\<exists>r. generate_censoring np self survival_time censoring_rate censoring_type
                    max_followup g = Inr r"
    by (auto simp: generate_censoring_def censoring_times_def followup_or_def Let_def)
next
  fix observed_time event g'
  assume gc: "generate_censoring np self survival_time censoring_rate censoring_type
                max_followup g = Inr ((observed_time, event), g')"
  then obtain censoring_time where
    ct: "censoring_times np survival_time censoring_rate censoring_type max_followup g
         = Inr (censoring_time, g')"
    and obs: "observed_time = map2 np_minimum survival_time censoring_time"
    and ev: "event = map2 (\<lambda>s c. if fl_le s c then 1 else 0) survival_time censoring_time"
    by (auto simp: generate_censoring_def Let_def split: sum.splits)
  from censoring_times_nonneg [OF np surv mf ct]
  have len: "length censoring_time = length survival_time"
    and cnn: "list_all (fl_le (Fin 0)) censoring_time"
    and adm: "censoring_type = ''administrative'' \<longrightarrow>
              (\<forall>m. max_followup = Some m \<longrightarrow> censoring_time = replicate (length survival_time) m)"
    by simp_all
  have flag: "\<forall>i < length survival_time.
      observed_time ! i = (if event ! i = 1 then survival_time ! i else censoring_time ! i)"
  proof (intro allI impI)
    fix i assume i: "i < length survival_time"
    with surv cnn len have "nonneg_number (survival_time ! i)" "fl_le (Fin 0) (censoring_time ! i)"
      by (simp_all add: list_all_length)
    from minimum_by_flag [OF this] i len
    show "observed_time ! i = (if event ! i = 1 then survival_time ! i else censoring_time ! i)"
      by (simp add: obs ev)
  qed
  show "\<exists>censoring_time.
          censoring_times np survival_time censoring_rate censoring_type max_followup g
            = Inr (censoring_time, g')
          \<and> length censoring_time = length survival_time
          \<and> observed_time = map2 np_minimum survival_time censoring_time
          \<and> event = map2 (\<lambda>s c. if fl_le s c then 1 else 0) survival_time censoring_time
          \<and> (\<forall>i < length survival_time.
                observed_time ! i
                  = (if event ! i = 1 then survival_time ! i else censoring_time ! i))"
    using ct len obs ev flag by blast
  show "list_all (fl_le (Fin 0)) observed_time"
    unfolding obs using surv cnn by (rule map2_all) (rule minimum_nonneg)
  {
    fix m assume a: "censoring_type = ''administrative''" "max_followup = Some m"
    with adm have c: "censoring_time = replicate (length survival_time) m" by simp
    from a mf have m0: "fl_le (Fin 0) m" by simp
    have "list_all (\<lambda>c. c = m \<and> fl_le (Fin 0) c) censoring_time"
      unfolding c using m0 by (simp add: list_all_iff)
    with surv have "list_all (\<lambda>t. fl_le t m) observed_time"
      unfolding obs by (rule map2_all) (auto dest: minimum_le_right)
  }
  then show "censoring_type = ''administrative'' \<Longrightarrow> max_followup = Some m \<Longrightarrow>
      list_all (\<lambda>t. fl_le t m) observed_time" for m by blast
qed

text \<open>The congruential generator keeps the contract of the library.\<close>

lemma lcg_draws_props:
  "length (fst (lcg_draws n g)) = n \<and> (\<forall>u\<in>set (fst (lcg_draws n g)). 0 \<le> u \<and> u \<le> 1)"
proof (induction n arbitrary: g)
  case 0
  show ?case by simp
next
  case (Suc n)
  have "real (lcg_next g) / 16 \<le> 1" by (simp add: lcg_next_def)
  with Suc [of "lcg_next g"] show ?case
    by (cases "lcg_draws n (lcg_next g)") (auto simp: Let_def)
qed

lemma between_bounds:
  fixes a b u :: real
  assumes "a \<le> b" "0 \<le> u" "u \<le> 1"
  shows "a \<le> a + (b - a) * u" "a + (b - a) * u \<le> b"
proof -
  from assms show "a \<le> a + (b - a) * u" by simp
  from assms have "(b - a) * u \<le> (b - a) * 1" by (intro mult_left_mono) simp_all
  then show "a + (b - a) * u \<le> b" by simp
qed

lemma lcg_uniform_contract:
  assumes "lcg_uniform low high n g = Inr (xs, g')"
  shows "length xs = nat n \<and> (fl_le low high \<longrightarrow> (\<forall>x\<in>set xs. fl_le low x \<and> fl_le x high))"
proof -
  from assms obtain a b where lh: "low = Fin a" "high = Fin b"
    by (cases low; cases high) (simp_all add: lcg_uniform_def)
  with assms have n: "0 \<le> n"
    and xs: "xs = map (\<lambda>u. Fin (a + (b - a) * u)) (fst (lcg_draws (nat n) g))"
    by (auto simp: lcg_uniform_def lcg_scaled_def split: if_splits prod.splits)
  from lcg_draws_props [of "nat n" g] show ?thesis
    unfolding xs lh by (auto simp: between_bounds)
qed

lemma nonneg_number_real: "nonneg_number x \<Longrightarrow> \<exists>r\<ge>0. fl_real x = Some r"
  by (cases x) (simp_all add: nonneg_number_def)

lemma linear_percentile_nonneg:
  assumes v: "linear_percentile xs q = Inr v" and ne: "xs \<noteq> []"
    and nn: "list_all nonneg_number xs"
  shows "fl_le (Fin 0) v"
proof -
  define s where "s = sort (map (the \<circ> fl_real) xs)"
  from nn have fin: "None \<notin> set (map fl_real xs)"
    by (force simp: list_all_iff dest: nonneg_number_real)
  from v obtain p where q: "q = Fin p" and p: "0 \<le> p" "p \<le> 100"
    by (cases q) (auto simp: linear_percentile_def split: if_splits)
  define h where "h = p / 100 * (real (length s) - 1)"
  define i where "i = nat \<lfloor>h\<rfloor>"
  define j where "j = min (i + 1) (length s - 1)"
  from v q p ne fin have ve: "v = Fin (s ! i + (h - real i) * (s ! j - s ! i))"
    by (simp add: linear_percentile_def Let_def s_def h_def i_def j_def)
  have ls: "0 < length s" using ne by (simp add: s_def)
  have l1: "0 \<le> real (length s) - 1" using ls by (cases s) simp_all
  have h0: "0 \<le> h" unfolding h_def using p l1 by (intro mult_nonneg_nonneg) simp_all
  have h1: "h \<le> real (length s) - 1" 
  proof -
    have "p / 100 * (real (length s) - 1) \<le> 1 * (real (length s) - 1)"
      using p l1 by (intro mult_right_mono) simp_all
    then show ?thesis by (simp add: h_def)
  qed
  have ih: "real i \<le> h" using h0 by (simp add: i_def)
  have "h \<le> real_of_int (int (length s) - 1)" using h1 by simp
  then have "\<lfloor>h\<rfloor> \<le> \<lfloor>real_of_int (int (length s) - 1)\<rfloor>" by (rule floor_mono)
  then have "\<lfloor>h\<rfloor> \<le> int (length s) - 1" by (simp only: floor_of_int)
  then have il: "i < length s" using ls unfolding i_def by linarith
  have jl: "j < length s" "i \<le> j" using il by (simp_all add: j_def)
  have sorted: "sorted s" by (simp add: s_def)
  have mono: "s ! i \<le> s ! j" using sorted jl by (simp add: sorted_nth_mono)
  have "\<forall>x\<in>set s. 0 \<le> x"
    using nn by (force simp: s_def list_all_iff dest: nonneg_number_real)
  with il have si: "0 \<le> s ! i" by simp
  have "0 \<le> (h - real i) * (s ! j - s ! i)" using ih mono by simp
  with si show ?thesis by (simp add: ve)
qed

lemma lcg_numpy_contract: "numpy_contract lcg_numpy"
  unfolding numpy_contract_def
proof (intro conjI allI impI)
  fix low high n g xs g'
  assume a: "np_uniform lcg_numpy low high n g = Inr (xs, g')"
  then have u: "lcg_uniform low high n g = Inr (xs, g')" by (simp add: lcg_numpy_def)
  from lcg_uniform_contract [OF u] show "length xs = nat n" by simp
  assume "fl_le low high"
  with lcg_uniform_contract [OF u] show "\<forall>x\<in>set xs. fl_le low x \<and> fl_le x high" by simp
next
  fix k p n g xs g'
  assume "np_binomial lcg_numpy k p n g = Inr (xs, g')"
  with lcg_draws_props [of n g] show "length xs = n"
    by (auto simp: lcg_numpy_def split: prod.splits)
next
  fix xs q v
  assume "np_percentile lcg_numpy xs q = Inr v \<and> xs \<noteq> [] \<and> list_all nonneg_number xs"
  then show "fl_le (Fin 0) v"
    by (auto simp: lcg_numpy_def intro: linear_percentile_nonneg)
qed

lemma random_censoring_run:
  "generate_censoring lcg_numpy \<lparr>sdg_random_seed = None\<rparr> [Fin 1, Fin 2] (Fin 0.2)
      ''random'' None 0 = Inr (([Fin 1, Fin (3 / 4)], [1, 0]), 2)"
  by (simp add: generate_censoring_def censoring_times_def followup_or_def scaled_max_def
      np_max_def lcg_numpy_def lcg_uniform_def lcg_scaled_def lcg_next_def
      numeral_2_eq_2)

lemma administrative_censoring_run:
  "generate_censoring lcg_numpy \<lparr>sdg_random_seed = None\<rparr> [Fin 1, Fin 5] (Fin 0.2)
      ''administrative'' (Some (Fin 3)) 0 = Inr (([Fin 1, Fin 3], [1, 0]), 0)"
  by (simp add: generate_censoring_def censoring_times_def followup_or_def numeral_2_eq_2)

text \<open>The theorem on a run with random censoring and a run with an administrative cutoff
  at 3.\<close>

theorem generate_censoring_invariants_witness:
  "numpy_contract lcg_numpy
   \<and> list_all nonneg_number [Fin 1, Fin 2] \<and> list_all nonneg_number [Fin 1, Fin 5]
   \<and> fl_le (Fin 0) (Fin 3)
   \<and> generate_censoring lcg_numpy \<lparr>sdg_random_seed = None\<rparr> [Fin 1, Fin 2] (Fin 0.2)
        ''random'' None 0 = Inr (([Fin 1, Fin (3 / 4)], [1, 0]), 2)
   \<and> list_all (fl_le (Fin 0)) [Fin 1, Fin (3 / 4)]
   \<and> generate_censoring lcg_numpy \<lparr>sdg_random_seed = None\<rparr> [Fin 1, Fin 5] (Fin 0.2)
        ''administrative'' (Some (Fin 3)) 0 = Inr (([Fin 1, Fin 3], [1, 0]), 0)
   \<and> list_all (fl_le (Fin 0)) [Fin 1, Fin 3]
   \<and> list_all (\<lambda>t. fl_le t (Fin 3)) [Fin 1, Fin 3]"
proof -
  have s1: "list_all nonneg_number [Fin 1, Fin 2]" and s2: "list_all nonneg_number [Fin 1, Fin 5]"
    by (simp_all add: nonneg_number_def)
  have m1: "case None of None \<Rightarrow> True | Some m \<Rightarrow> fl_le (Fin 0) m" by simp
  have m2: "case Some (Fin 3) of None \<Rightarrow> True | Some m \<Rightarrow> fl_le (Fin 0) m" by simp
  from generate_censoring_invariants [OF lcg_numpy_contract s1 m1,
      of "''random''" "\<lparr>sdg_random_seed = None\<rparr>" "Fin 0.2" 0] random_censoring_run
  have r: "list_all (fl_le (Fin 0)) [Fin 1, Fin (3 / 4)]" by blast
  from generate_censoring_invariants [OF lcg_numpy_contract s2 m2,
      of "''administrative''" "\<lparr>sdg_random_seed = None\<rparr>" "Fin 0.2" 0]
    administrative_censoring_run
  have a: "list_all (fl_le (Fin 0)) [Fin 1, Fin 3]"
    "list_all (\<lambda>t. fl_le t (Fin 3)) [Fin 1, Fin 3]" by blast+
  from lcg_numpy_contract s1 s2 r a random_censoring_run administrative_censoring_run
  show ?thesis by simp
qed

section \<open>Properties of two generator objects in one process\<close>

text \<open>
  Claim C7, as it is stated, fails: the output of a sampler call of one object changes
  when another object is constructed in between. With the congruential generator,
  \<^verbatim>\<open>ContinuousVariableGenerator(1).generate_uniform(1, 0, 1)\<close> returns \<open>[1/2]\<close>, and
  returns \<open>[13/16]\<close> when \<^verbatim>\<open>SurvivalDataGenerator(2)\<close> is constructed between the
  construction and the call.
\<close>

theorem private_stream_counterexample:
  "returned (cvg_run lcg_numpy (Some 1)
      (\<lambda>self. generate_uniform lcg_numpy self 1 (Fin 0) (Fin 1)) 0) = Inr [Fin (1 / 2)]
   \<and> returned (two_instances lcg_numpy (Some 1) (Some 2)
      (\<lambda>self. generate_uniform lcg_numpy self 1 (Fin 0) (Fin 1)) 0) = Inr [Fin (13 / 16)]
   \<and> returned (cvg_run lcg_numpy (Some 1)
      (\<lambda>self. generate_uniform lcg_numpy self 1 (Fin 0) (Fin 1)) 0)
     \<noteq> returned (two_instances lcg_numpy (Some 1) (Some 2)
      (\<lambda>self. generate_uniform lcg_numpy self 1 (Fin 0) (Fin 1)) 0)"
  by (simp add: returned_def cvg_run_def two_instances_def cvg_init_def sdg_init_def
      generate_uniform_def lcg_numpy_def lcg_uniform_def lcg_scaled_def lcg_next_def)

text \<open>
  Claim C7, amended. The generator objects share the one process-wide generator state:
  constructing an object with a seed reseeds that state. A sampler call of a first object,
  made after a second object was constructed with seed \<open>s2\<close>, runs on the state that
  \<^verbatim>\<open>np.random.seed(s2)\<close> sets: its output is that of the same call right after seeding
  with \<open>s2\<close>, whatever the first object's own seed and whatever was drawn before.
\<close>

theorem generators_share_state:
  "two_instances np seed1 (Some s2) method g =
     (case cvg_init np seed1 g of
        Inl e \<Rightarrow> Inl e
      | Inr (a, g1) \<Rightarrow>
          (case np_seed np s2 of
             Inl e \<Rightarrow> Inl e
           | Inr gs \<Rightarrow> method a gs))"
  by (simp add: two_instances_def sdg_init_def split: sum.splits prod.splits)

section \<open>Properties of RealismEnhancer\<close>

lemma clip_twice:
  "np_minimum (np_maximum (np_minimum (np_maximum x lo) hi) lo) hi
     = np_minimum (np_maximum x lo) hi"
  by (cases x; cases lo; cases hi) auto

lemma np_maximum_twice: "np_maximum (np_maximum x lo) lo = np_maximum x lo"
  by (cases x; cases lo) auto

lemma np_minimum_twice: "np_minimum (np_minimum x hi) hi = np_minimum x hi"
  by (cases x; cases hi) auto

text \<open>
  Claim C9. \<^verbatim>\<open>enforce_range\<close> is idempotent: for every array and every pair of bounds
  (each given or omitted), clipping the clipped array again with the same bounds gives
  the clipped array, element by element. The bounds 0 and 10 are one instance.
\<close>

theorem enforce_range_idempotent:
  "enforce_range (enforce_range x min_val max_val) min_val max_val
     = enforce_range x min_val max_val"
  by (cases min_val; cases max_val)
     (simp_all add: enforce_range_def clip_twice np_maximum_twice np_minimum_twice)

text \<open>
  Claim C8. For every data dictionary, dropout rate and generator state,
  \<^verbatim>\<open>add_dropout\<close> with the mechanism \<^verbatim>\<open>'related'\<close> returns what it returns with the
  mechanism \<^verbatim>\<open>'random'\<close>: the same filtered dictionary and dropout mask (or the same
  exception), and the same generator state afterwards.
\<close>

theorem add_dropout_related_is_random:
  "add_dropout np self data dropout_rate ''related'' g
     = add_dropout np self data dropout_rate ''random'' g"
  by (cases data) (simp_all add: add_dropout_def)

section \<open>Properties of validate_odds_ratio\<close>

lemma norm_cdf_zero: "norm_cdf 0 = 1 / 2"
  by (simp add: norm_cdf_def)

lemma table_ones: "odds_table [1, 0, 1, 0] [1, 1, 0, 0] = Inr (1, 1, 1, 1)"
  by (simp add: odds_table_def count_cell_def np_logical_and_def)

lemma one_positive_table_run:
  "validate_odds_ratio (validator_init tol) [1, 0, 1, 0] [1, 1, 0, 0] expected False (Fin 0.05)
   = Inr (\<lparr>passed = check_value (validator_init tol) (Fin 1) expected,
           expected_value = expected, actual_value = Fin 1,
           tolerance = tol, p_value = Some (Fin 1),
           confidence_interval = (Some (Fin (exp (- 3.92))), Some (Fin (exp 3.92)))\<rparr>,
          \<lparr>validator_tolerance = tol, validator_results =
            [\<lparr>passed = check_value (validator_init tol) (Fin 1) expected,
              expected_value = expected, actual_value = Fin 1,
              tolerance = tol, p_value = Some (Fin 1),
              confidence_interval = (Some (Fin (exp (- 3.92))), Some (Fin (exp 3.92)))\<rparr>]\<rparr>)"
  by (simp add: validate_odds_ratio_def table_ones validator_init_def norm_cdf_zero Let_def)

text \<open>
  Claim C2, as it is stated, fails for an expected odds ratio of zero: the code then
  compares the absolute value of the realized odds ratio with the tolerance. On the
  table with one observation in each cell (odds ratio 1, p-value 1), a validator of
  tolerance 2 validating \<^verbatim>\<open>expected_or=0, expected_significant=False\<close> returns
  \<^verbatim>\<open>passed = True\<close>, while the relative error \<open>|1 - 0| / |0|\<close> is not at most 2.
\<close>

theorem zero_expected_or_counterexample:
  "map_sum id (passed \<circ> fst)
     (validate_odds_ratio (validator_init (Fin 2)) [1, 0, 1, 0] [1, 1, 0, 0] (Fin 0) False
        (Fin 0.05)) = Inr True
   \<and> map_sum id (\<lambda>(r, v). stated_pass_criterion r False (Fin 0.05))
     (validate_odds_ratio (validator_init (Fin 2)) [1, 0, 1, 0] [1, 1, 0, 0] (Fin 0) False
        (Fin 0.05)) = Inr False"
  using one_positive_table_run [of "Fin 2" "Fin 0"]
  by (simp add: check_value_def validator_init_def stated_pass_criterion_def
      relative_error_def significance_matches_def fl_sub_def fl_inf_def)

lemma odds_table_total:
  "length outcome = length exposure \<Longrightarrow> \<exists>t. odds_table outcome exposure = Inr t"
  by (simp add: odds_table_def count_cell_def np_logical_and_def)

text \<open>
  Claim C2, amended. \<^verbatim>\<open>validate_odds_ratio\<close> returns (it does whenever the two arrays
  have one length), and in its result \<^verbatim>\<open>passed\<close> is true if and only if the magnitude
  check holds and the observed significance matches the expected one, where the magnitude
  check is: the relative error between the realized odds ratio and \<^verbatim>\<open>expected_or\<close> is at
  most the tolerance, when \<^verbatim>\<open>expected_or\<close> is not zero; the absolute value of the
  realized odds ratio is below the tolerance, when \<^verbatim>\<open>expected_or\<close> is zero. Whenever a
  cell of the 2x2 table is zero, the p-value of the result is \<^verbatim>\<open>None\<close> and
  \<^verbatim>\<open>passed\<close> is false.
\<close>

theorem validate_odds_ratio_pass:
  "(length outcome = length exposure \<longrightarrow>
      (\<exists>r v. validate_odds_ratio self outcome exposure expected_or expected_significant alpha
               = Inr (r, v)))
   \<and> (\<forall>r v. validate_odds_ratio self outcome exposure expected_or expected_significant alpha
               = Inr (r, v) \<longrightarrow>
        (passed r \<longleftrightarrow>
           (if expected_or = Fin 0
            then fl_less (fl_abs (actual_value r)) (validator_tolerance self)
            else fl_le (relative_error (actual_value r) expected_or) (validator_tolerance self))
           \<and> significance_matches (p_value r) expected_significant alpha)
        \<and> expected_value r = expected_or \<and> tolerance r = validator_tolerance self
        \<and> (\<exists>a b c d. odds_table outcome exposure = Inr (a, b, c, d)
              \<and> (b \<noteq> 0 \<and> c \<noteq> 0 \<longrightarrow>
                    actual_value r = Fin (real_of_int (a * d) / real_of_int (b * c)))
              \<and> (a = 0 \<or> b = 0 \<or> c = 0 \<or> d = 0 \<longrightarrow> p_value r = None \<and> \<not> passed r)))"
proof (intro conjI allI impI)
  assume "length outcome = length exposure"
  from odds_table_total [OF this]
  show "\<exists>r v. validate_odds_ratio self outcome exposure expected_or expected_significant alpha
               = Inr (r, v)"
    by (auto simp: validate_odds_ratio_def Let_def split: prod.splits)
next
  fix r v
  assume run: "validate_odds_ratio self outcome exposure expected_or expected_significant alpha
               = Inr (r, v)"
  then obtain a b c d where t: "odds_table outcome exposure = Inr (a, b, c, d)"
    by (auto simp: validate_odds_ratio_def split: sum.splits)
  from run t show "passed r \<longleftrightarrow>
           (if expected_or = Fin 0
            then fl_less (fl_abs (actual_value r)) (validator_tolerance self)
            else fl_le (relative_error (actual_value r) expected_or) (validator_tolerance self))
           \<and> significance_matches (p_value r) expected_significant alpha"
    by (auto simp: validate_odds_ratio_def Let_def check_value_def relative_error_def
        significance_matches_def split: if_splits)
  from run t show "expected_value r = expected_or"
    by (auto simp: validate_odds_ratio_def Let_def split: if_splits)
  from run t show "tolerance r = validator_tolerance self"
    by (auto simp: validate_odds_ratio_def Let_def split: if_splits)
  from run t show "\<exists>a b c d. odds_table outcome exposure = Inr (a, b, c, d)
              \<and> (b \<noteq> 0 \<and> c \<noteq> 0 \<longrightarrow>
                    actual_value r = Fin (real_of_int (a * d) / real_of_int (b * c)))
              \<and> (a = 0 \<or> b = 0 \<or> c = 0 \<or> d = 0 \<longrightarrow> p_value r = None \<and> \<not> passed r)"
    by (auto simp: validate_odds_ratio_def Let_def split: if_splits)
qed

lemma zero_cell_run:
  "validate_odds_ratio (validator_init (Fin 0.2)) [1, 0, 1] [1, 1, 0] (Fin 2) True (Fin 0.05)
   = Inr (\<lparr>passed = False, expected_value = Fin 2, actual_value = Fin 0,
           tolerance = Fin 0.2, p_value = None, confidence_interval = (None, None)\<rparr>,
          \<lparr>validator_tolerance = Fin 0.2, validator_results =
            [\<lparr>passed = False, expected_value = Fin 2, actual_value = Fin 0,
              tolerance = Fin 0.2, p_value = None, confidence_interval = (None, None)\<rparr>]\<rparr>)"
  by (simp add: validate_odds_ratio_def odds_table_def count_cell_def np_logical_and_def
      validator_init_def check_value_def fl_sub_def Let_def)

text \<open>The theorem on the table with one observation in each cell and expected odds ratio
  1 (a pass), and on a table with an empty cell (no p-value, no pass).\<close>

theorem validate_odds_ratio_pass_witness:
  "length [1, 0, 1, 0 :: int] = length [1, 1, 0, 0 :: int]
   \<and> map_sum id (passed \<circ> fst)
       (validate_odds_ratio (validator_init (Fin 0.2)) [1, 0, 1, 0] [1, 1, 0, 0] (Fin 1) False
          (Fin 0.05)) = Inr True
   \<and> fl_le (relative_error (Fin 1) (Fin 1)) (Fin 0.2)
   \<and> significance_matches (Some (Fin 1)) False (Fin 0.05)
   \<and> odds_table [1, 0, 1] [1, 1, 0] = Inr (1, 1, 1, 0)
   \<and> map_sum id (\<lambda>(r, v). (passed r, p_value r))
       (validate_odds_ratio (validator_init (Fin 0.2)) [1, 0, 1] [1, 1, 0] (Fin 2) True
          (Fin 0.05)) = Inr (False, None)"
proof -
  have run: "validate_odds_ratio (validator_init (Fin 0.2)) [1, 0, 1, 0] [1, 1, 0, 0] (Fin 1)
      False (Fin 0.05)
    = Inr (\<lparr>passed = check_value (validator_init (Fin 0.2)) (Fin 1) (Fin 1),
           expected_value = Fin 1, actual_value = Fin 1,
           tolerance = Fin 0.2, p_value = Some (Fin 1),
           confidence_interval = (Some (Fin (exp (- 3.92))), Some (Fin (exp 3.92)))\<rparr>,
          \<lparr>validator_tolerance = Fin 0.2, validator_results =
            [\<lparr>passed = check_value (validator_init (Fin 0.2)) (Fin 1) (Fin 1),
              expected_value = Fin 1, actual_value = Fin 1,
              tolerance = Fin 0.2, p_value = Some (Fin 1),
              confidence_interval = (Some (Fin (exp (- 3.92))), Some (Fin (exp 3.92)))\<rparr>]\<rparr>)"
    by (rule one_positive_table_run)
  have rel: "fl_le (relative_error (Fin 1) (Fin 1)) (Fin 0.2)"
    by (simp add: relative_error_def fl_sub_def)
  have sig: "significance_matches (Some (Fin 1)) False (Fin 0.05)"
    by (simp add: significance_matches_def)
  have tab: "odds_table [1, 0, 1] [1, 1, 0] = Inr (1, 1, 1, 0)"
    by (simp add: odds_table_def count_cell_def np_logical_and_def)
  from validate_odds_ratio_pass [of "[1, 0, 1, 0]" "[1, 1, 0, 0]" "validator_init (Fin 0.2)"
      "Fin 1" False "Fin 0.05"] run rel sig
  have p1: "map_sum id (passed \<circ> fst)
       (validate_odds_ratio (validator_init (Fin 0.2)) [1, 0, 1, 0] [1, 1, 0, 0] (Fin 1) False
          (Fin 0.05)) = Inr True"
    by (simp add: validator_init_def)
  from validate_odds_ratio_pass [of "[1, 0, 1]" "[1, 1, 0]" "validator_init (Fin 0.2)"
      "Fin 2" True "Fin 0.05"] zero_cell_run tab
  have p2: "map_sum id (\<lambda>(r, v). (passed r, p_value r))
       (validate_odds_ratio (validator_init (Fin 0.2)) [1, 0, 1] [1, 1, 0] (Fin 2) True
          (Fin 0.05)) = Inr (False, None)"
    by simp
  from p1 p2 rel sig tab show ?thesis by simp
qed

section \<open>Properties of round_to_precision\<close>

lemma binary64_exponent_eq:
  assumes "2 powi e \<le> \<bar>x\<bar>" "\<bar>x\<bar> < 2 powi (e + 1)" "- 1022 \<le> e"
  shows "binary64_exponent x = e"
proof -
  have pos: "0 < \<bar>x\<bar>" using assms(1) by (smt (verit) zero_less_power_int)
  have p: "(2::real) powr real_of_int e = 2 powi e"
    "(2::real) powr (real_of_int e + 1) = 2 powi (e + 1)"
    using powr_real_of_int' [of "2::real" e] powr_real_of_int' [of "2::real" "e + 1"]
    by simp_all
  have "\<lfloor>log 2 \<bar>x\<bar>\<rfloor> = e"
    using assms pos by (subst floor_log_eq_powr_iff) (simp_all add: p)
  with assms(3) show ?thesis by (simp add: binary64_exponent_def)
qed

lemma binary64_eval:
  assumes "2 powi e \<le> \<bar>x\<bar>" "\<bar>x\<bar> < 2 powi (e + 1)" "- 1022 \<le> e" "e < 1023"
    and "rint (x / 2 powi (e - 52)) = m" "\<bar>of_int m * 2 powi (e - 52)\<bar> < (2::real) ^ 1024"
  shows "binary64 x = Fin (of_int m * 2 powi (e - 52))"
proof -
  have "x \<noteq> 0" using assms(1) by (smt (verit) zero_less_power_int)
  then show ?thesis
    using binary64_exponent_eq [OF assms(1-3)] assms(5,6)
    by (simp add: binary64_def Let_def)
qed

lemma b_tenth: "binary64 0.1 = Fin (7205759403792794 / 2 ^ 56)"
  using binary64_eval [of "-4" "0.1" 7205759403792794]
  by (simp add: rint_def power_int_minus)

lemma b_124: "binary64 (1.24) = Fin (5584463537939415 / 2 ^ 52)"
  using binary64_eval [of "0" "1.24" 5584463537939415]
  by (simp add: rint_def power_int_minus)

lemma b_126: "binary64 (1.26) = Fin (5674535530486825 / 2 ^ 52)"
  using binary64_eval [of "0" "1.26" 5674535530486825]
  by (simp add: rint_def power_int_minus)

lemma b_12: "binary64 (1.2) = Fin (5404319552844595 / 2 ^ 52)"
  using binary64_eval [of "0" "1.2" 5404319552844595]
  by (simp add: rint_def power_int_minus)

lemma b_13: "binary64 (1.3) = Fin (5854679515581645 / 2 ^ 52)"
  using binary64_eval [of "0" "1.3" 5854679515581645]
  by (simp add: rint_def power_int_minus)

lemma b_q1: "binary64 ((5584463537939415 / 2 ^ 52) / (7205759403792794 / 2 ^ 56)) = Fin (6980579422424268 / 2 ^ 49)"
  using binary64_eval [of "3" "(5584463537939415 / 2 ^ 52) / (7205759403792794 / 2 ^ 56)" 6980579422424268]
  by (simp add: rint_def power_int_minus)

lemma b_q2: "binary64 ((5674535530486825 / 2 ^ 52) / (7205759403792794 / 2 ^ 56)) = Fin (7093169413108531 / 2 ^ 49)"
  using binary64_eval [of "3" "(5674535530486825 / 2 ^ 52) / (7205759403792794 / 2 ^ 56)" 7093169413108531]
  by (simp add: rint_def power_int_minus)

lemma b_m12: "binary64 (12 * (7205759403792794 / 2 ^ 56)) = Fin (5404319552844596 / 2 ^ 52)"
  using binary64_eval [of "0" "12 * (7205759403792794 / 2 ^ 56)" 5404319552844596]
  by (simp add: rint_def power_int_minus)

lemma b_m13: "binary64 (13 * (7205759403792794 / 2 ^ 56)) = Fin (5854679515581645 / 2 ^ 52)"
  using binary64_eval [of "0" "13 * (7205759403792794 / 2 ^ 56)" 5854679515581645]
  by (simp add: rint_def power_int_minus)

lemma rint_q1: "rint (6980579422424268 / 2 ^ 49) = 12"
  by (simp add: rint_def)

lemma rint_q2: "rint (7093169413108531 / 2 ^ 49) = 13"
  by (simp add: rint_def)

lemma floor_q1: "\<lfloor>6980579422424268 / 2 ^ 49 :: real\<rfloor> = 12"
  by simp

lemma floor_q2: "\<lfloor>7093169413108531 / 2 ^ 49 :: real\<rfloor> = 12"
  by simp

lemma round_branch:
  "round_to_precision A self data precision ''round''
   = Inr (map (\<lambda>x. a_mul A (fl_integer rint (a_div A x precision)) precision) data)"
  by (simp add: round_to_precision_def)

lemma floor_branch:
  "round_to_precision A self data precision ''floor''
   = Inr (map (\<lambda>x. a_mul A (fl_integer floor (a_div A x precision)) precision) data)"
  by (simp add: round_to_precision_def)

lemma binary64_round_run:
  "round_to_precision binary64_arith self [binary64 1.24, binary64 1.26] (binary64 0.1) ''round''
   = Inr [Fin (5404319552844596 / 2 ^ 52), Fin (5854679515581645 / 2 ^ 52)]"
  unfolding round_branch b_124 b_126
  using b_tenth b_q1 b_q2 b_m12 b_m13 rint_q1 rint_q2
  by (simp add: binary64_arith_def)

lemma binary64_floor_run:
  "round_to_precision binary64_arith self [binary64 1.24, binary64 1.26] (binary64 0.1) ''floor''
   = Inr [Fin (5404319552844596 / 2 ^ 52), Fin (5404319552844596 / 2 ^ 52)]"
  unfolding floor_branch b_124 b_126
  using b_tenth b_q1 b_q2 b_m12 floor_q1 floor_q2
  by (simp add: binary64_arith_def)

lemma exact_round_run:
  "round_to_precision exact_arith self [Fin 1.24, Fin 1.26] (Fin 0.1) ''round''
   = Inr [Fin 1.2, Fin 1.3]"
  by (simp add: round_to_precision_def exact_arith_def rint_def)

lemma exact_floor_run:
  "round_to_precision exact_arith self [Fin 1.24, Fin 1.26] (Fin 0.1) ''floor''
   = Inr [Fin 1.2, Fin 1.2]"
  by (simp add: round_to_precision_def exact_arith_def)

text \<open>
  Claim C6, as it is stated, fails in the arithmetic of the implementation: the arrays
  are \<^verbatim>\<open>float64\<close>, \<open>1.24 / 0.1\<close> rounds to 12, and the double nearest to
  \<open>12 * 0.1\<close> is \<open>5404319552844596 / 2^52\<close> (printed 1.2000000000000002), not the
  double \<open>1.2 = 5404319552844595 / 2^52\<close>. The second element is the double 1.3.
\<close>

theorem round_to_precision_binary64_counterexample:
  "round_to_precision binary64_arith \<lparr>re_random_seed = None\<rparr>
      [binary64 1.24, binary64 1.26] (binary64 0.1) ''round''
     = Inr [Fin (5404319552844596 / 2 ^ 52), Fin (5854679515581645 / 2 ^ 52)]
   \<and> [binary64 1.2, binary64 1.3]
     = [Fin (5404319552844595 / 2 ^ 52), Fin (5854679515581645 / 2 ^ 52)]
   \<and> round_to_precision binary64_arith \<lparr>re_random_seed = None\<rparr>
      [binary64 1.24, binary64 1.26] (binary64 0.1) ''round''
     \<noteq> Inr [binary64 1.2, binary64 1.3]"
  using binary64_round_run [of "\<lparr>re_random_seed = None\<rparr>"] b_12 b_13 by simp

text \<open>
  Claim C6, amended. In exact real arithmetic,
  \<^verbatim>\<open>round_to_precision([1.24, 1.26], precision=0.1, method='round')\<close> is \<open>[1.2, 1.3]\<close>
  and with \<^verbatim>\<open>method='floor'\<close> it is \<open>[1.2, 1.2]\<close>. In binary64 arithmetic the results
  are \<open>[12 * 0.1, 13 * 0.1]\<close> and \<open>[12 * 0.1, 12 * 0.1]\<close> rounded to doubles:
  \<open>13 * 0.1\<close> is the double 1.3, and \<open>12 * 0.1\<close> is the double one unit in the last
  place above the double 1.2 (1.2000000000000002).
\<close>

theorem round_to_precision_example:
  "round_to_precision exact_arith self [Fin 1.24, Fin 1.26] (Fin 0.1) ''round''
     = Inr [Fin 1.2, Fin 1.3]
   \<and> round_to_precision exact_arith self [Fin 1.24, Fin 1.26] (Fin 0.1) ''floor''
     = Inr [Fin 1.2, Fin 1.2]
   \<and> round_to_precision binary64_arith self [binary64 1.24, binary64 1.26] (binary64 0.1)
       ''round''
     = Inr [Fin (5404319552844596 / 2 ^ 52), binary64 1.3]
   \<and> round_to_precision binary64_arith self [binary64 1.24, binary64 1.26] (binary64 0.1)
       ''floor''
     = Inr [Fin (5404319552844596 / 2 ^ 52), Fin (5404319552844596 / 2 ^ 52)]
   \<and> binary64 1.2 = Fin (5404319552844595 / 2 ^ 52)"
  by (simp only: exact_round_run exact_floor_run binary64_round_run binary64_floor_run b_12 b_13 simp_thms)

end
